theory Spec2Isabelle
  imports Main "HOL-Library.Word"
begin

section \<open>Kubernetes objects, as far as the node controller reads and writes them\<close>

text \<open>
  Source: \<^verbatim>\<open>pkg/controller/node/node_controller.go\<close>.
  A Go \<^verbatim>\<open>map[string]string\<close> is a partial map; a nil map and an empty map read alike
  (indexing and ranging over a nil map are legal in Go), so both are \<open>Map.empty\<close>.
  Structs that embed \<^verbatim>\<open>metav1.ObjectMeta\<close> extend the record \<open>ObjectMeta\<close>, so
  that \<open>Name node\<close> and \<open>Annotations node\<close> read as \<^verbatim>\<open>node.Name\<close> and
  \<^verbatim>\<open>node.Annotations\<close> do. The string-typed enumerations of the API
  (\<^verbatim>\<open>v1.ConditionStatus\<close>, \<^verbatim>\<open>v1.NodeConditionType\<close>,
  \<^verbatim>\<open>batchv1.JobConditionType\<close>) stay strings.
\<close>

type_synonym annotations = "string \<rightharpoonup> string"
type_synonym int64 = "64 word"

record OwnerReference =
  OwnerReference_APIVersion :: string
  OwnerReference_Kind :: string
  OwnerReference_Name :: string
  OwnerReference_UID :: string

record ObjectMeta =
  Name :: string
  Namespace :: string
  UID :: string
  Labels :: annotations
  Annotations :: annotations
  OwnerReferences :: "OwnerReference list"

record NodeCondition =
  Type :: string
  Status :: string
  Reason :: string

record NodeStatus =
  NodeStatus_Conditions :: "NodeCondition list"

record Node = ObjectMeta +
  APIVersion :: string
  Kind :: string
  Node_Status :: NodeStatus

text \<open>The pod's container specification is opaque to the controller: it is only copied.\<close>

type_synonym PodSpec = string

record PodTemplateSpec = ObjectMeta +
  PodTemplateSpec_Spec :: PodSpec

record PodTemplate = ObjectMeta +
  Template :: PodTemplateSpec

record JobCondition =
  JobCondition_Type :: string
  JobCondition_Status :: string

record JobStatus =
  JobStatus_Conditions :: "JobCondition list"

record JobSpec =
  JobSpec_Template :: PodTemplateSpec

record Job = ObjectMeta +
  Job_Spec :: JobSpec
  Job_Status :: JobStatus

abbreviation NodeReady :: string where "NodeReady \<equiv> ''Ready''"
abbreviation ConditionTrue :: string where "ConditionTrue \<equiv> ''True''"
abbreviation JobComplete :: string where "JobComplete \<equiv> ''Complete''"
abbreviation JobFailed :: string where "JobFailed \<equiv> ''Failed''"

text \<open>Go's \<^verbatim>\<open>m[k]\<close> on a string map: the zero value \<^verbatim>\<open>""\<close> when the key is absent.\<close>

definition index :: "annotations \<Rightarrow> string \<Rightarrow> string" where
  "index m k = (case m k of Some v \<Rightarrow> v | None \<Rightarrow> [])"

text \<open>The zero values \<^verbatim>\<open>&v1.PodTemplate{}\<close> and \<^verbatim>\<open>&batchv1.Job{}\<close>.\<close>

definition zeroPodTemplateSpec :: PodTemplateSpec where
  "zeroPodTemplateSpec =
     \<lparr>Name = [], Namespace = [], UID = [], Labels = Map.empty, Annotations = Map.empty,
      OwnerReferences = [], PodTemplateSpec_Spec = []\<rparr>"

definition zeroPodTemplate :: PodTemplate where
  "zeroPodTemplate =
     \<lparr>Name = [], Namespace = [], UID = [], Labels = Map.empty, Annotations = Map.empty,
      OwnerReferences = [], Template = zeroPodTemplateSpec\<rparr>"

section \<open>The condition extractors\<close>

text \<open>
  \<^verbatim>\<open>GetNodeCondition\<close> and \<^verbatim>\<open>GetJobCondition\<close> (lines 376-402): the status pointer may
  be nil (\<open>None\<close>); the result is the index and a pointer to the first condition of the
  type, or \<open>-1\<close> and nil.
\<close>

fun GetNodeCondition_loop :: "int \<Rightarrow> NodeCondition list \<Rightarrow> string \<Rightarrow> int \<times> NodeCondition option" where
  "GetNodeCondition_loop i [] conditionType = (-1, None)"
| "GetNodeCondition_loop i (c # cs) conditionType =
     (if Type c = conditionType then (i, Some c)
      else GetNodeCondition_loop (i + 1) cs conditionType)"

fun GetNodeCondition :: "NodeStatus option \<Rightarrow> string \<Rightarrow> int \<times> NodeCondition option" where
  "GetNodeCondition None conditionType = (-1, None)"
| "GetNodeCondition (Some status) conditionType =
     GetNodeCondition_loop 0 (NodeStatus_Conditions status) conditionType"

fun GetJobCondition_loop :: "int \<Rightarrow> JobCondition list \<Rightarrow> string \<Rightarrow> int \<times> JobCondition option" where
  "GetJobCondition_loop i [] conditionType = (-1, None)"
| "GetJobCondition_loop i (c # cs) conditionType =
     (if JobCondition_Type c = conditionType then (i, Some c)
      else GetJobCondition_loop (i + 1) cs conditionType)"

fun GetJobCondition :: "JobStatus option \<Rightarrow> string \<Rightarrow> int \<times> JobCondition option" where
  "GetJobCondition None conditionType = (-1, None)"
| "GetJobCondition (Some status) conditionType =
     GetJobCondition_loop 0 (JobStatus_Conditions status) conditionType"

section \<open>The job builder\<close>

text \<open>
  \<^verbatim>\<open>newJobForNode\<close> (lines 298-374). The package variable \<^verbatim>\<open>Namespace\<close> is the first
  argument. \<open>jobAnnotations\<close> is the map \<^verbatim>\<open>annotations\<close> as lines 303-344 build it, step
  by step in the order of the source. The loop of lines 311-318 ranges over the three keys of the default map; each
  round writes only its own key, so the order in which Go visits them does not matter and
  the model folds over them in the order of the literal.
\<close>

definition defaultAnnotations :: annotations where
  "defaultAnnotations =
     [''fencing/mode'' \<mapsto> ''flush'', ''fencing/template'' \<mapsto> ''fencing'',
      ''fencing/timeout'' \<mapsto> ''0'']"

definition defaultKeys :: "string list" where
  "defaultKeys = [''fencing/mode'', ''fencing/template'', ''fencing/timeout'']"

definition overrideDefault :: "PodTemplate \<Rightarrow> Node \<Rightarrow> string \<Rightarrow> annotations \<Rightarrow> annotations" where
  "overrideDefault podTemplate node k annotations =
     (let annotations1 = (case Annotations podTemplate k of
                            Some v \<Rightarrow> annotations(k \<mapsto> v) | None \<Rightarrow> annotations)
      in case Annotations node k of
           Some v \<Rightarrow> annotations1(k \<mapsto> v) | None \<Rightarrow> annotations1)"

definition jobAnnotations :: "Node \<Rightarrow> PodTemplate \<Rightarrow> annotations" where
  "jobAnnotations node podTemplate =
     (let annotations0 = fold (overrideDefault podTemplate node) defaultKeys defaultAnnotations;
          pod = Template podTemplate;
          annotations1 = annotations0 ++ Annotations pod;
          annotations2 = annotations1(''fencing/node'' \<mapsto> Name node);
          annotations3 =
            (case Annotations node ''fencing/id'' of
               Some id' \<Rightarrow> annotations2(''fencing/id'' \<mapsto> id')
             | None \<Rightarrow>
                (case Annotations podTemplate ''fencing/id'' of
                   Some id' \<Rightarrow> annotations2(''fencing/id'' \<mapsto> id')
                 | None \<Rightarrow> annotations2(''fencing/id'' \<mapsto> Name node)));
          annotations4 =
            (case Annotations node ''fencing/after-hook'' of
               Some afterHook \<Rightarrow> annotations3(''fencing/after-hook'' \<mapsto> afterHook)
             | None \<Rightarrow> annotations3)
      in case Annotations podTemplate ''fencing/after-hook'' of
           Some afterHook \<Rightarrow> annotations4(''fencing/after-hook'' \<mapsto> afterHook)
         | None \<Rightarrow> annotations4)"

definition newJobForNode :: "string \<Rightarrow> Node \<Rightarrow> PodTemplate \<Rightarrow> Job" where
  "newJobForNode pkg_Namespace node podTemplate =
     (let labels = [''node'' \<mapsto> Name node, ''fencing'' \<mapsto> ''fence''];
          annotations = jobAnnotations node podTemplate;
          pod = (Template podTemplate)\<lparr>Annotations := annotations\<rparr>;
          prefix = (if Name pod = [] then ''fence'' else Name pod)
      in \<lparr>Name = prefix @ ''-'' @ Name node,
          Namespace = pkg_Namespace,
          UID = [],
          Labels = labels,
          Annotations = annotations,
          OwnerReferences =
            [\<lparr>OwnerReference_APIVersion = APIVersion node,
              OwnerReference_Kind = Kind node,
              OwnerReference_Name = Name node,
              OwnerReference_UID = UID node\<rparr>],
          Job_Spec = \<lparr>JobSpec_Template = pod\<rparr>,
          Job_Status = \<lparr>JobStatus_Conditions = []\<rparr>\<rparr>)"


section \<open>Integers in annotations\<close>

text \<open>
  The controller reads and writes integers through Go's \<^verbatim>\<open>strconv\<close>. The functions
  below follow the standard library for base 10 on a 64-bit platform (\<^verbatim>\<open>int\<close> is
  \<^verbatim>\<open>int64\<close>): \<^verbatim>\<open>ParseUint\<close> scans the digits and stops at the first byte that is not
  a digit (syntax error, value 0) or at the first overflow of 64 bits (range error, value
  \<open>2^64 - 1\<close>); \<^verbatim>\<open>ParseInt\<close> takes an optional sign, returns 0 with a syntax error,
  and the nearest bound of \<^verbatim>\<open>int64\<close> with a range error. \<^verbatim>\<open>Atoi\<close> returns the same
  value and fails on the same strings as \<^verbatim>\<open>ParseInt(s, 10, 0)\<close>.
\<close>

datatype error =
    NotFound
  | AlreadyExists
  | ErrSyntax
  | ErrRange
  | OtherError string

definition IsNotFound :: "error \<Rightarrow> bool" where
  "IsNotFound err = (err = NotFound)"

definition isDigit :: "char \<Rightarrow> bool" where
  "isDigit c = (48 \<le> (of_char c :: nat) \<and> (of_char c :: nat) \<le> 57)"

fun ParseUint_loop :: "nat \<Rightarrow> string \<Rightarrow> nat \<times> error option" where
  "ParseUint_loop n [] = (n, None)"
| "ParseUint_loop n (c # cs) =
     (if \<not> isDigit c then (0, Some ErrSyntax)
      else if (2 ^ 64 - 1) div 10 + 1 \<le> n then (2 ^ 64 - 1, Some ErrRange)
      else let n1 = n * 10 + (of_char c - 48)
           in if 2 ^ 64 - 1 < n1 then (2 ^ 64 - 1, Some ErrRange)
              else ParseUint_loop n1 cs)"

definition ParseUint :: "string \<Rightarrow> nat \<times> error option" where
  "ParseUint s = (if s = [] then (0, Some ErrSyntax) else ParseUint_loop 0 s)"

definition ParseInt :: "string \<Rightarrow> int64 \<times> error option" where
  "ParseInt s0 =
     (if s0 = [] then (0, Some ErrSyntax)
      else
        let neg = (hd s0 = CHR ''-'');
            s = (if hd s0 = CHR ''+'' \<or> hd s0 = CHR ''-'' then tl s0 else s0)
        in case ParseUint s of
             (un, Some ErrSyntax) \<Rightarrow> (0, Some ErrSyntax)
           | (un, _) \<Rightarrow>
               if \<not> neg \<and> 2 ^ 63 \<le> un then (word_of_nat (2 ^ 63 - 1), Some ErrRange)
               else if neg \<and> 2 ^ 63 < un then (- word_of_nat (2 ^ 63), Some ErrRange)
               else (if neg then - word_of_nat un else word_of_nat un, None))"

definition Atoi :: "string \<Rightarrow> int64 \<times> error option" where
  "Atoi s = ParseInt s"

text \<open>\<^verbatim>\<open>strconv.FormatInt(i, 10)\<close>: the decimal digits, after a minus sign when negative.\<close>

function formatNat :: "nat \<Rightarrow> string" where
  "formatNat n =
     (if n < 10 then [char_of (48 + n)]
      else formatNat (n div 10) @ [char_of (48 + n mod 10)])"
  by pat_completeness auto
termination
  by (relation "measure (\<lambda>n. n)") auto

declare formatNat.simps [simp del]

definition FormatInt :: "int64 \<Rightarrow> string" where
  "FormatInt i =
     (if sint i < 0 then CHR ''-'' # formatNat (nat (- sint i)) else formatNat (nat (sint i)))"

section \<open>The cluster and its client\<close>

text \<open>
  The cluster store holds the nodes, the pod templates and the jobs; an object is found by
  the name (and namespace) in its own metadata. The controller reaches it through
  \<^verbatim>\<open>r.client\<close>, whose calls can fail. Each call site of \<^verbatim>\<open>Reconcile\<close> runs at most
  once in a pass, so the outcomes that the store does not determine are given per call
  site: \<open>fault env site\<close> is the error the call at \<open>site\<close> returns, if any, and the two
  readings of the clock are \<open>now_193\<close> and \<open>now_213\<close> (\<^verbatim>\<open>time.Now().Unix()\<close> at those
  lines). Every write that the controller issues is appended to \<open>calls\<close>, whether or not
  it succeeds. Reads and writes go to the one store (the client's cache is taken to be up
  to date), a deleted job is gone at once, and creating a job whose name is taken fails.
  The sites are named after the call and its line in the source.
\<close>

type_synonym mergePatch = "(string \<times> string option) list"

datatype call =
    Patch string mergePatch
  | Create Job
  | Delete string string
  | Go_Sleep_Patch int64 string mergePatch

datatype site =
    Get_77 | Patch_110 | Get_136 | Get_149 | Delete_152
  | Patch_205 | Patch_241 | Get_255 | Delete_278 | Create_286

record env =
  pkg_Namespace :: string
  fault :: "site \<Rightarrow> error option"
  now_193 :: int64
  now_213 :: int64

record world =
  nodes :: "Node list"
  podTemplates :: "PodTemplate list"
  jobs :: "Job list"
  calls :: "call list"

definition named :: "string \<Rightarrow> string \<Rightarrow> 'a ObjectMeta_scheme \<Rightarrow> bool" where
  "named namespace name obj = (Name obj = name \<and> Namespace obj = namespace)"

definition getNode :: "world \<Rightarrow> string \<Rightarrow> Node option" where
  "getNode w name = find (\<lambda>n. Name n = name) (nodes w)"

definition getPodTemplate :: "world \<Rightarrow> string \<Rightarrow> string \<Rightarrow> PodTemplate option" where
  "getPodTemplate w namespace name = find (named namespace name) (podTemplates w)"

definition getJob :: "world \<Rightarrow> string \<Rightarrow> string \<Rightarrow> Job option" where
  "getJob w namespace name = find (named namespace name) (jobs w)"

text \<open>
  \<^verbatim>\<open>client.Get\<close>: the fault of the call site, else not-found when the store has no such
  object. On an error the object passed in keeps its zero value.
\<close>

definition client_Get :: "env \<Rightarrow> site \<Rightarrow> 'a option \<Rightarrow> error + 'a" where
  "client_Get env s stored =
     (case fault env s of
        Some err \<Rightarrow> Inl err
      | None \<Rightarrow> (case stored of None \<Rightarrow> Inl NotFound | Some obj \<Rightarrow> Inr obj))"

text \<open>
  A JSON merge patch of \<^verbatim>\<open>metadata.annotations\<close>: a key with a string sets the annotation,
  a key with \<^verbatim>\<open>nil\<close> (\<open>None\<close>) removes it, the other annotations stay.
\<close>

definition applyMergePatch :: "mergePatch \<Rightarrow> annotations \<Rightarrow> annotations" where
  "applyMergePatch p m = fold (\<lambda>(k, v) m'. m'(k := v)) p m"

definition patchNode :: "string \<Rightarrow> mergePatch \<Rightarrow> Node \<Rightarrow> Node" where
  "patchNode name p n =
     (if Name n = name then n\<lparr>Annotations := applyMergePatch p (Annotations n)\<rparr> else n)"

text \<open>
  \<^verbatim>\<open>client.Patch(ctx, node, patch)\<close>: on success the store holds the patched node and the
  caller's \<^verbatim>\<open>node\<close> is overwritten with it; on an error both stay as they were.
\<close>

definition client_Patch :: "env \<Rightarrow> site \<Rightarrow> world \<Rightarrow> Node \<Rightarrow> mergePatch \<Rightarrow> error option \<times> Node \<times> world" where
  "client_Patch env s w node p =
     (let w1 = w\<lparr>calls := calls w @ [Patch (Name node) p]\<rparr>
      in case fault env s of
           Some err \<Rightarrow> (Some err, node, w1)
         | None \<Rightarrow>
             (case getNode w (Name node) of
                None \<Rightarrow> (Some NotFound, node, w1)
              | Some cur \<Rightarrow>
                  (None, patchNode (Name node) p cur,
                   w1\<lparr>nodes := map (patchNode (Name node) p) (nodes w)\<rparr>)))"

definition client_Create :: "env \<Rightarrow> site \<Rightarrow> world \<Rightarrow> Job \<Rightarrow> error option \<times> world" where
  "client_Create env s w job =
     (let w1 = w\<lparr>calls := calls w @ [Create job]\<rparr>
      in case fault env s of
           Some err \<Rightarrow> (Some err, w1)
         | None \<Rightarrow>
             (case getJob w (Namespace job) (Name job) of
                Some _ \<Rightarrow> (Some AlreadyExists, w1)
              | None \<Rightarrow> (None, w1\<lparr>jobs := jobs w @ [job]\<rparr>)))"

definition client_Delete :: "env \<Rightarrow> site \<Rightarrow> world \<Rightarrow> Job \<Rightarrow> error option \<times> world" where
  "client_Delete env s w found =
     (let w1 = w\<lparr>calls := calls w @ [Delete (Namespace found) (Name found)]\<rparr>
      in case fault env s of
           Some err \<Rightarrow> (Some err, w1)
         | None \<Rightarrow>
             (case getJob w (Namespace found) (Name found) of
                None \<Rightarrow> (Some NotFound, w1)
              | Some _ \<Rightarrow>
                  (None, w1\<lparr>jobs := filter (\<lambda>j. \<not> named (Namespace found) (Name found) j) (jobs w)\<rparr>)))"


section \<open>The reconciliation pass\<close>

text \<open>
  \<^verbatim>\<open>Reconcile\<close> (lines 73-295) returns \<^verbatim>\<open>reconcile.Result{}\<close> on every path, so its
  result here is the error (\<open>Some err\<close> asks the queue for a retry) and the world after
  the pass. The function is cut where the source's comments cut it:
  \<open>recoveredCleanup\<close> is the body of lines 146-158, \<open>armingPhase\<close> lines 169-247
  (``fencing procedure is not started yet''), \<open>executionPhase\<close> lines 253-293
  (``fencing procedure started''). The patch to \<^verbatim>\<open>started\<close> (lines 233-246) is reached
  from two places and is \<open>patchStarted\<close>; lines 212-231 followed by it are
  \<open>checkRemainTime\<close>. The goroutine of lines 215-227 outlives the pass: the pass only
  records that it was started, with the seconds it sleeps and the patch it sends then.
\<close>

definition recoveredCleanup :: "env \<Rightarrow> world \<Rightarrow> Job \<Rightarrow> error option \<times> world" where
  "recoveredCleanup env w job =
     (case client_Get env Get_149 (getJob w (Namespace job) (Name job)) of
        Inr found \<Rightarrow> (None, snd (client_Delete env Delete_152 w found))
      | Inl err \<Rightarrow> (None, w))"

definition patchStarted :: "env \<Rightarrow> world \<Rightarrow> Node \<Rightarrow> error option \<times> world" where
  "patchStarted env w node =
     (case client_Patch env Patch_241 w node
             [(''fencing/state'', Some ''started''), (''fencing/timestamp'', None)] of
        (Some err, node', w') \<Rightarrow> (Some err, w')
      | (None, node', w') \<Rightarrow> (None, w'))"

definition checkRemainTime :: "env \<Rightarrow> world \<Rightarrow> Node \<Rightarrow> int64 \<Rightarrow> int64 \<Rightarrow> error option \<times> world" where
  "checkRemainTime env w node timeout fencingTimestamp =
     (let remainTime = timeout - (now_213 env - fencingTimestamp)
      in if 0 <s remainTime
         then (None, w\<lparr>calls := calls w @
                 [Go_Sleep_Patch remainTime (Name node) [(''fencing/timestamp'', None)]]\<rparr>)
         else patchStarted env w node)"

text \<open>Lines 172-178: the timeout string of the node, else of the template, else \<^verbatim>\<open>"0"\<close>.\<close>

definition timeoutStrFor :: "Node \<Rightarrow> PodTemplate \<Rightarrow> string" where
  "timeoutStrFor node podTemplate =
     (case Annotations node ''fencing/timeout'' of
        Some s \<Rightarrow> s
      | None \<Rightarrow> (case Annotations podTemplate ''fencing/timeout'' of
                   Some s \<Rightarrow> s | None \<Rightarrow> ''0''))"

definition armingPhase :: "env \<Rightarrow> world \<Rightarrow> Node \<Rightarrow> string \<Rightarrow> PodTemplate \<Rightarrow> error option \<times> world" where
  "armingPhase env w node fencingState podTemplate =
     (let timeoutStr = timeoutStrFor node podTemplate
      in case Atoi timeoutStr of
           (timeout, Some err) \<Rightarrow> (None, w)
         | (timeout, None) \<Rightarrow>
             if 0 <s timeout then
               (let fencingTimestampStr = index (Annotations node) ''fencing/timestamp'';
                    fencingTimestamp = fst (ParseInt fencingTimestampStr)
                in if fencingState = [] \<and> fencingTimestamp = 0 then
                     (let fencingTimestamp = now_193 env;
                          fencingTimestampStr = FormatInt fencingTimestamp
                      in case client_Patch env Patch_205 w node
                                [(''fencing/state'', Some ''pending''),
                                 (''fencing/timestamp'', Some fencingTimestampStr)] of
                           (Some err, node', w') \<Rightarrow> (Some err, w')
                         | (None, node', w') \<Rightarrow>
                             checkRemainTime env w' node' timeout fencingTimestamp)
                   else checkRemainTime env w node timeout fencingTimestamp)
             else patchStarted env w node)"

definition executionPhase :: "env \<Rightarrow> world \<Rightarrow> Node \<Rightarrow> Job \<Rightarrow> error option \<times> world" where
  "executionPhase env w node job =
     (case client_Get env Get_255 (getJob w (Namespace job) (Name job)) of
        Inl err \<Rightarrow>
          if \<not> IsNotFound err then (Some err, w)
          else (case client_Create env Create_286 w job of
                  (Some err, w') \<Rightarrow> (Some err, w')
                | (None, w') \<Rightarrow> (None, w'))
      | Inr found \<Rightarrow>
          (let jc = snd (GetJobCondition (Some (Job_Status found)) JobComplete);
               jf = snd (GetJobCondition (Some (Job_Status found)) JobFailed)
           in if jc = None \<and> jf = None then (None, w)
              else (case client_Delete env Delete_278 w found of
                      (Some err, w') \<Rightarrow> (Some err, w')
                    | (None, w') \<Rightarrow>
                        (case client_Create env Create_286 w' job of
                           (Some err, w'') \<Rightarrow> (Some err, w'')
                         | (None, w'') \<Rightarrow> (None, w'')))))"

text \<open>
  Lines 96-116: the recovery check. It yields the local variables \<^verbatim>\<open>fencingState\<close> and
  \<^verbatim>\<open>node\<close> and the world as they are at line 118. The error of the patch is logged
  and dropped.
\<close>

definition recoveredCheck :: "env \<Rightarrow> world \<Rightarrow> Node \<Rightarrow> string \<Rightarrow> NodeCondition \<Rightarrow> string \<times> Node \<times> world" where
  "recoveredCheck env w node fencingState c =
     (if Status c = ConditionTrue \<and> (fencingState = ''pending'' \<or> fencingState = ''fenced'')
      then (case client_Patch env Patch_110 w node
                   [(''fencing/state'', None), (''fencing/timestamp'', None)] of
              (err, node', w') \<Rightarrow> (''recovered'', node', w'))
      else (fencingState, node, w))"

text \<open>
  Lines 128-140: the pod template the pass goes on with; \<open>None\<close> when the pass stops
  there, which it does only on a not-found error.
\<close>

definition podTemplateFor :: "env \<Rightarrow> world \<Rightarrow> Node \<Rightarrow> PodTemplate option" where
  "podTemplateFor env w node =
     (let templateName = (case Annotations node ''fencing/template'' of
                            Some t \<Rightarrow> t | None \<Rightarrow> ''fencing'')
      in case client_Get env Get_136 (getPodTemplate w (pkg_Namespace env) templateName) of
           Inl err \<Rightarrow> if IsNotFound err then None else Some zeroPodTemplate
         | Inr podTemplate \<Rightarrow> Some podTemplate)"

text \<open>Lines 142-294, with the job built from the node and the pod template.\<close>

definition withTemplate :: "env \<Rightarrow> world \<Rightarrow> Node \<Rightarrow> string \<Rightarrow> PodTemplate \<Rightarrow> error option \<times> world" where
  "withTemplate env w node fencingState podTemplate =
     (let job = newJobForNode (pkg_Namespace env) node podTemplate
      in if fencingState = ''recovered'' then recoveredCleanup env w job
         else if index (Annotations node) ''fencing/enabled'' \<noteq> ''true'' then (None, w)
         else if fencingState \<noteq> ''started''
              then armingPhase env w node fencingState podTemplate
              else executionPhase env w node job)"

definition Reconcile :: "env \<Rightarrow> world \<Rightarrow> string \<Rightarrow> error option \<times> world" where
  "Reconcile env w request =
     (case client_Get env Get_77 (getNode w request) of
        Inl err \<Rightarrow> if IsNotFound err then (None, w) else (Some err, w)
      | Inr node0 \<Rightarrow>
          (case snd (GetNodeCondition (Some (Node_Status node0)) NodeReady) of
             None \<Rightarrow> (None, w)
           | Some c \<Rightarrow>
               (case recoveredCheck env w node0 (index (Annotations node0) ''fencing/state'') c of
                  (fencingState, node, w1) \<Rightarrow>
                    if fencingState = ''fenced'' then (None, w1)
                    else if fencingState \<noteq> ''recovered'' \<and> Reason c \<noteq> ''NodeStatusUnknown''
                    then (None, w1)
                    else (case podTemplateFor env w1 node of
                            None \<Rightarrow> (None, w1)
                          | Some podTemplate \<Rightarrow>
                              withTemplate env w1 node fencingState podTemplate))))"

section \<open>Example objects\<close>

text \<open>
  A node with a \<^verbatim>\<open>Ready\<close> condition behind another condition, the pod template
  \<^verbatim>\<open>fencing\<close> of \<^verbatim>\<open>deploy/examples/after-hook.yaml\<close>, and a cluster that holds them.
\<close>

definition ex_node :: "annotations \<Rightarrow> string \<Rightarrow> string \<Rightarrow> Node" where
  "ex_node anns status reason =
     \<lparr>Name = ''n1'', Namespace = [], UID = ''uid-1'', Labels = Map.empty, Annotations = anns,
      OwnerReferences = [], APIVersion = ''v1'', Kind = ''Node'',
      Node_Status = \<lparr>NodeStatus_Conditions =
        [\<lparr>Type = ''MemoryPressure'', Status = ''False'', Reason = ''KubeletHasSufficientMemory''\<rparr>,
         \<lparr>Type = ''Ready'', Status = status, Reason = reason\<rparr>]\<rparr>\<rparr>"

definition ex_template :: PodTemplate where
  "ex_template =
     \<lparr>Name = ''fencing'', Namespace = ''fencing'', UID = [], Labels = Map.empty,
      Annotations = [''fencing/after-hook'' \<mapsto> ''fencing-after'', ''fencing/mode'' \<mapsto> ''none''],
      OwnerReferences = [],
      Template = zeroPodTemplateSpec\<lparr>PodTemplateSpec_Spec := ''echo kill node''\<rparr>\<rparr>"

definition ex_env :: env where
  "ex_env = \<lparr>pkg_Namespace = ''fencing'', fault = (\<lambda>s. None), now_193 = 1000, now_213 = 1000\<rparr>"

definition ex_world :: "Node \<Rightarrow> Job list \<Rightarrow> world" where
  "ex_world n js = \<lparr>nodes = [n], podTemplates = [ex_template], jobs = js, calls = []\<rparr>"

definition ex_job :: "string \<Rightarrow> Job" where
  "ex_job conditionType =
     (newJobForNode ''fencing'' (ex_node Map.empty ''Unknown'' ''NodeStatusUnknown'') ex_template)
       \<lparr>Job_Status := \<lparr>JobStatus_Conditions =
           [\<lparr>JobCondition_Type = conditionType, JobCondition_Status = ''True''\<rparr>]\<rparr>\<rparr>"

section \<open>The annotations of the built job\<close>

lemma overrideDefault_apply:
  "overrideDefault podTemplate node k a k' =
     (if k' = k
      then (case Annotations node k of
              Some v \<Rightarrow> Some v
            | None \<Rightarrow> (case Annotations podTemplate k of Some v \<Rightarrow> Some v | None \<Rightarrow> a k))
      else a k')"
  by (simp add: overrideDefault_def Let_def split: option.splits)

lemma fold_overrideDefault:
  "fold (overrideDefault podTemplate node) ks a k =
     (if k \<in> set ks
      then (case Annotations node k of
              Some v \<Rightarrow> Some v
            | None \<Rightarrow> (case Annotations podTemplate k of Some v \<Rightarrow> Some v | None \<Rightarrow> a k))
      else a k)"
proof (induction ks arbitrary: a)
  case Nil
  show ?case by simp
next
  case (Cons k0 ks)
  let ?a = "overrideDefault podTemplate node k0 a"
  have "fold (overrideDefault podTemplate node) (k0 # ks) a k =
        fold (overrideDefault podTemplate node) ks ?a k"
    by simp
  also have "\<dots> =
     (if k \<in> set ks
      then (case Annotations node k of
              Some v \<Rightarrow> Some v
            | None \<Rightarrow> (case Annotations podTemplate k of Some v \<Rightarrow> Some v | None \<Rightarrow> ?a k))
      else ?a k)"
    by (rule Cons.IH)
  also have "\<dots> =
     (if k \<in> set (k0 # ks)
      then (case Annotations node k of
              Some v \<Rightarrow> Some v
            | None \<Rightarrow> (case Annotations podTemplate k of Some v \<Rightarrow> Some v | None \<Rightarrow> a k))
      else a k)"
    by (simp add: overrideDefault_apply split: option.splits)
  finally show ?case .
qed

lemma Annotations_newJobForNode:
  "Annotations (newJobForNode ns node podTemplate) = jobAnnotations node podTemplate"
  by (simp add: newJobForNode_def Let_def)

lemma defaultKeys_not_forced:
  "k \<in> set defaultKeys \<Longrightarrow>
     k \<noteq> ''fencing/node'' \<and> k \<noteq> ''fencing/id'' \<and> k \<noteq> ''fencing/after-hook''"
  by (auto simp: defaultKeys_def)

lemma after_hook_not_default: "''fencing/after-hook'' \<notin> set defaultKeys"
  by (simp add: defaultKeys_def)

lemma jobAnnotations_default_key:
  assumes "k \<in> set defaultKeys"
  shows "jobAnnotations node podTemplate k =
          (case Annotations (Template podTemplate) k of
             Some v \<Rightarrow> Some v
           | None \<Rightarrow> fold (overrideDefault podTemplate node) defaultKeys defaultAnnotations k)"
  using defaultKeys_not_forced [OF assms]
  by (simp add: jobAnnotations_def Let_def map_add_def split: option.splits)


lemma jobAnnotations_node: "jobAnnotations node podTemplate ''fencing/node'' = Some (Name node)"
  by (simp add: jobAnnotations_def Let_def split: option.splits)

lemma jobAnnotations_id:
  "jobAnnotations node podTemplate ''fencing/id'' =
     (case Annotations node ''fencing/id'' of
        Some v \<Rightarrow> Some v
      | None \<Rightarrow>
         (case Annotations podTemplate ''fencing/id'' of
            Some v \<Rightarrow> Some v
          | None \<Rightarrow> Some (Name node)))"
  by (simp add: jobAnnotations_def Let_def split: option.splits)

lemma jobAnnotations_after_hook:
  "jobAnnotations node podTemplate ''fencing/after-hook'' =
     (case Annotations podTemplate ''fencing/after-hook'' of
        Some t \<Rightarrow> Some t
      | None \<Rightarrow>
         (case Annotations node ''fencing/after-hook'' of
            Some n \<Rightarrow> Some n
          | None \<Rightarrow> Annotations (Template podTemplate) ''fencing/after-hook''))"
proof -
  have "fold (overrideDefault podTemplate node) defaultKeys defaultAnnotations
          ''fencing/after-hook'' = None"
    by (simp add: fold_overrideDefault after_hook_not_default) (simp add: defaultAnnotations_def)
  then show ?thesis
    by (simp add: jobAnnotations_def Let_def map_add_def split: option.splits)
qed

text \<open>
  Claim C7. In the annotations of the built job, each of the keys \<^verbatim>\<open>fencing/mode\<close>,
  \<^verbatim>\<open>fencing/template\<close>, \<^verbatim>\<open>fencing/timeout\<close> has the value of the annotation on the
  template's embedded pod spec if there is one, else the node's, else the template's, else
  the default literal. \<^verbatim>\<open>fencing/node\<close> is the node's name and \<^verbatim>\<open>fencing/id\<close> is the
  node's \<^verbatim>\<open>fencing/id\<close>, else the template's, else the node's name, whatever the pod
  spec's annotations say. The pod of the job carries the same annotations as the job.
\<close>

theorem newJobForNode_annotation_precedence:
  "(\<forall>k \<in> set defaultKeys.
      Annotations (newJobForNode ns node podTemplate) k =
        (case Annotations (Template podTemplate) k of
           Some v \<Rightarrow> Some v
         | None \<Rightarrow>
            (case Annotations node k of
               Some v \<Rightarrow> Some v
             | None \<Rightarrow>
                (case Annotations podTemplate k of
                   Some v \<Rightarrow> Some v
                 | None \<Rightarrow> defaultAnnotations k)))) \<and>
   Annotations (newJobForNode ns node podTemplate) ''fencing/node'' = Some (Name node) \<and>
   Annotations (newJobForNode ns node podTemplate) ''fencing/id'' =
     (case Annotations node ''fencing/id'' of
        Some v \<Rightarrow> Some v
      | None \<Rightarrow>
         (case Annotations podTemplate ''fencing/id'' of
            Some v \<Rightarrow> Some v
          | None \<Rightarrow> Some (Name node))) \<and>
   Annotations (JobSpec_Template (Job_Spec (newJobForNode ns node podTemplate))) =
     Annotations (newJobForNode ns node podTemplate)"
proof (intro conjI ballI)
  fix k assume "k \<in> set defaultKeys"
  then show "Annotations (newJobForNode ns node podTemplate) k =
        (case Annotations (Template podTemplate) k of
           Some v \<Rightarrow> Some v
         | None \<Rightarrow>
            (case Annotations node k of
               Some v \<Rightarrow> Some v
             | None \<Rightarrow>
                (case Annotations podTemplate k of
                   Some v \<Rightarrow> Some v
                 | None \<Rightarrow> defaultAnnotations k)))"
    by (simp add: Annotations_newJobForNode jobAnnotations_default_key fold_overrideDefault
          split: option.splits)
next
  show "Annotations (newJobForNode ns node podTemplate) ''fencing/node'' = Some (Name node)"
    by (simp add: Annotations_newJobForNode jobAnnotations_node)
next
  show "Annotations (newJobForNode ns node podTemplate) ''fencing/id'' =
     (case Annotations node ''fencing/id'' of
        Some v \<Rightarrow> Some v
      | None \<Rightarrow>
         (case Annotations podTemplate ''fencing/id'' of
            Some v \<Rightarrow> Some v
          | None \<Rightarrow> Some (Name node)))"
    by (simp only: Annotations_newJobForNode jobAnnotations_id)
next
  show "Annotations (JobSpec_Template (Job_Spec (newJobForNode ns node podTemplate))) =
     Annotations (newJobForNode ns node podTemplate)"
    by (simp add: newJobForNode_def Let_def)
qed

text \<open>
  The example of the specification: the node's \<^verbatim>\<open>fencing/mode=reboot\<close> wins over the
  template's \<^verbatim>\<open>fencing/mode=flush\<close>, which is used when the node has none.
\<close>

theorem newJobForNode_annotation_precedence_witness:
  "''fencing/mode'' \<in> set defaultKeys \<and>
   Annotations (newJobForNode ''fencing''
      (ex_node [''fencing/mode'' \<mapsto> ''reboot''] ''Unknown'' ''NodeStatusUnknown'')
      (ex_template\<lparr>Annotations := [''fencing/mode'' \<mapsto> ''flush'']\<rparr>)) ''fencing/mode'' =
     Some ''reboot'' \<and>
   Annotations (newJobForNode ''fencing''
      (ex_node Map.empty ''Unknown'' ''NodeStatusUnknown'')
      (ex_template\<lparr>Annotations := [''fencing/mode'' \<mapsto> ''flush'']\<rparr>)) ''fencing/mode'' =
     Some ''flush''"
  using newJobForNode_annotation_precedence
          [of "''fencing''" "ex_node [''fencing/mode'' \<mapsto> ''reboot''] ''Unknown'' ''NodeStatusUnknown''"
              "ex_template\<lparr>Annotations := [''fencing/mode'' \<mapsto> ''flush'']\<rparr>"]
        newJobForNode_annotation_precedence
          [of "''fencing''" "ex_node Map.empty ''Unknown'' ''NodeStatusUnknown''"
              "ex_template\<lparr>Annotations := [''fencing/mode'' \<mapsto> ''flush'']\<rparr>"]
  by (simp add: defaultKeys_def ex_node_def ex_template_def zeroPodTemplateSpec_def)

text \<open>
  Claim C8. For \<^verbatim>\<open>fencing/after-hook\<close> the order is the reverse of the general one: the
  node's value is copied in first and the template's value overwrites it, so the job
  carries the template's value whenever the template has one, and the node's value only
  when the template has none.
\<close>

theorem newJobForNode_after_hook:
  "Annotations (newJobForNode ns node podTemplate) ''fencing/after-hook'' =
     (case Annotations podTemplate ''fencing/after-hook'' of
        Some t \<Rightarrow> Some t
      | None \<Rightarrow>
         (case Annotations node ''fencing/after-hook'' of
            Some n \<Rightarrow> Some n
          | None \<Rightarrow> Annotations (Template podTemplate) ''fencing/after-hook''))"
  by (simp only: Annotations_newJobForNode jobAnnotations_after_hook)

text \<open>
  A node with its own after-hook, under the template of \<^verbatim>\<open>deploy/examples/after-hook.yaml\<close>:
  the job carries the template's \<^verbatim>\<open>fencing-after\<close>.
\<close>

theorem newJobForNode_after_hook_witness:
  "Annotations (newJobForNode ''fencing''
      (ex_node [''fencing/after-hook'' \<mapsto> ''node-hook''] ''Unknown'' ''NodeStatusUnknown'')
      ex_template) ''fencing/after-hook'' = Some ''fencing-after''"
  using newJobForNode_after_hook
          [of "''fencing''"
              "ex_node [''fencing/after-hook'' \<mapsto> ''node-hook''] ''Unknown'' ''NodeStatusUnknown''"
              ex_template]
  by (simp add: ex_node_def ex_template_def)

section \<open>Decimal integers round-trip\<close>

text \<open>
  What \<^verbatim>\<open>FormatInt\<close> writes, \<^verbatim>\<open>ParseInt\<close> reads back without an error: the timestamp
  that a pass finds in \<^verbatim>\<open>fencing/timestamp\<close> is the clock reading that an earlier pass
  recorded there.
\<close>

lemma ParseUint_loop_append:
  "ParseUint_loop n (xs @ ys) =
     (case ParseUint_loop n xs of
        (n', None) \<Rightarrow> ParseUint_loop n' ys
      | (n', Some e) \<Rightarrow> (n', Some e))"
  by (induction xs arbitrary: n) (simp_all add: Let_def isDigit_def)

lemma digit_char:
  assumes "(d::nat) < 10"
  shows "isDigit (char_of (48 + d))" and "of_char (char_of (48 + d)) - 48 = d"
    and "char_of (48 + d) \<noteq> CHR ''-''" and "char_of (48 + d) \<noteq> CHR ''+''"
proof -
  have v: "of_char (char_of (48 + d)) = 48 + d"
    using assms by (simp add: of_char_of)
  show "isDigit (char_of (48 + d))"
    using assms by (simp add: isDigit_def v)
  show "of_char (char_of (48 + d)) - 48 = d"
    unfolding v by simp
  have "(of_char (char_of (48 + d)) :: nat) \<noteq> of_char CHR ''-''"
    using assms by (simp add: v)
  then show "char_of (48 + d) \<noteq> CHR ''-''" by metis
  have "(of_char (char_of (48 + d)) :: nat) \<noteq> of_char CHR ''+''"
    using assms by (simp add: v)
  then show "char_of (48 + d) \<noteq> CHR ''+''" by metis
qed

lemma ParseUint_loop_formatNat:
  "n < 2 ^ 64 \<Longrightarrow> ParseUint_loop 0 (formatNat n) = (n, None)"
proof (induction n rule: formatNat.induct)
  case (1 n)
  show ?case
  proof (cases "n < 10")
    case True
    then have "formatNat n = [char_of (48 + n)]"
      by (subst formatNat.simps) simp
    then show ?thesis
      using True digit_char [of n] by (simp add: Let_def)
  next
    case False
    have d: "n mod 10 < 10" by simp
    have f: "formatNat n = formatNat (n div 10) @ [char_of (48 + n mod 10)]"
      using False by (subst formatNat.simps) simp
    have ih: "ParseUint_loop 0 (formatNat (n div 10)) = (n div 10, None)"
      using "1.IH" False "1.prems" by simp
    have lt: "n div 10 < (2 ^ 64 - 1) div 10 + 1"
      using "1.prems" by simp
    show ?thesis
      using digit_char [OF d] lt "1.prems"
      by (simp add: f ParseUint_loop_append ih Let_def)
  qed
qed

lemma formatNat_hd: "formatNat n \<noteq> [] \<and> isDigit (hd (formatNat n)) \<and>
     hd (formatNat n) \<noteq> CHR ''-'' \<and> hd (formatNat n) \<noteq> CHR ''+''"
proof (induction n rule: formatNat.induct)
  case (1 n)
  show ?case
  proof (cases "n < 10")
    case True
    then have "formatNat n = [char_of (48 + n)]"
      by (subst formatNat.simps) simp
    then show ?thesis
      using True digit_char [of n] by simp
  next
    case False
    have f: "formatNat n = formatNat (n div 10) @ [char_of (48 + n mod 10)]"
      using False by (subst formatNat.simps) simp
    show ?thesis
      using "1.IH" False by (simp add: f)
  qed
qed

lemma ParseUint_formatNat: "n < 2 ^ 64 \<Longrightarrow> ParseUint (formatNat n) = (n, None)"
  using formatNat_hd [of n] by (simp add: ParseUint_def ParseUint_loop_formatNat)

lemma ParseInt_FormatInt: "ParseInt (FormatInt i) = (i, None)"
proof (cases "sint i < 0")
  case False
  let ?n = "nat (sint i)"
  have b: "?n < 2 ^ 63"
    using sint_lt [of i] by simp
  then have b': "?n < 2 ^ 64" by simp
  have w: "word_of_nat ?n = i"
    using False by simp
  have F: "FormatInt i = formatNat ?n"
    using False by (simp add: FormatInt_def)
  show ?thesis
    using formatNat_hd [of ?n] b w
    by (simp add: F ParseInt_def Let_def ParseUint_formatNat [OF b'])
next
  case True
  let ?n = "nat (- sint i)"
  have b: "?n \<le> 2 ^ 63"
    using sint_ge [of i] by simp
  then have b': "?n < 2 ^ 64" by simp
  have w: "- word_of_nat ?n = i"
    using True by simp
  have F: "FormatInt i = CHR ''-'' # formatNat ?n"
    using True by (simp add: FormatInt_def)
  show ?thesis
    using b w
    by (simp add: F ParseInt_def Let_def ParseUint_formatNat [OF b'])
qed

text \<open>
  The remaining time of line 213 is computed in \<^verbatim>\<open>int64\<close>. For a timestamp that is not
  negative and not after the clock reading, and a positive timeout, nothing wraps around
  and the result is the integer \<open>timeout - (now - timestamp)\<close>.
\<close>

lemma remainTime_sint:
  fixes timeout now ts :: int64
  assumes "0 \<le> sint ts" and "sint ts \<le> sint now" and "0 < sint timeout"
  shows "sint (timeout - (now - ts)) = sint timeout - (sint now - sint ts)"
proof -
  have bn: "sint now < 2 ^ 63" using sint_lt [of now] by simp
  have bt: "sint timeout < 2 ^ 63" using sint_lt [of timeout] by simp
  have d: "sint (now - ts) = sint now - sint ts"
    using assms(1,2) bn
    by (simp add: sint_word_ariths signed_take_bit_int_eq_self)
  show ?thesis
    using assms bn bt
    by (simp add: sint_word_ariths d signed_take_bit_int_eq_self)
qed

lemma remainTime_positive:
  fixes timeout now ts :: int64
  assumes "0 \<le> sint ts" and "sint ts \<le> sint now" and "0 < sint timeout"
  shows "0 <s timeout - (now - ts) \<longleftrightarrow> 0 < sint timeout - (sint now - sint ts)"
  by (simp add: word_sless_alt remainTime_sint [OF assms])

lemma Atoi_0: "Atoi ''0'' = (0, None)"
  by (simp add: Atoi_def ParseInt_def ParseUint_def isDigit_def)

lemma Atoi_60: "Atoi ''60'' = (60, None)"
  by (simp add: Atoi_def ParseInt_def ParseUint_def isDigit_def)

lemma Atoi_1m: "snd (Atoi ''1m'') = Some ErrSyntax"
  by (simp add: Atoi_def ParseInt_def ParseUint_def isDigit_def)

lemma FormatInt_1000: "FormatInt 1000 = ''1000''"
  by code_simp

section \<open>The store under the client calls\<close>

lemma Name_patchNode: "Name (patchNode name p n) = Name n"
  by (simp add: patchNode_def)

lemma Node_Status_patchNode: "Node_Status (patchNode name p n) = Node_Status n"
  by (simp add: patchNode_def)

lemma find_map_patchNode:
  "find (\<lambda>n. Name n = name') (map (patchNode name p) ns) =
     map_option (patchNode name p) (find (\<lambda>n. Name n = name') ns)"
  by (induction ns) (simp_all add: Name_patchNode)

lemma getNode_patched:
  "getNode (w\<lparr>calls := cs, nodes := map (patchNode name p) (nodes w)\<rparr>) name' =
     map_option (patchNode name p) (getNode w name')"
  by (simp add: getNode_def find_map_patchNode)

lemma getNode_Name: "getNode w name = Some n \<Longrightarrow> Name n = name"
  by (auto simp: getNode_def find_Some_iff)

lemma getJob_named: "getJob w ns name = Some j \<Longrightarrow> Name j = name \<and> Namespace j = ns"
  by (auto simp: getJob_def named_def find_Some_iff)

lemma find_filter_not: "find P (filter (\<lambda>x. \<not> P x) xs) = None"
  by (induction xs) simp_all

lemma Name_newJobForNode:
  "Name (newJobForNode ns node podTemplate) =
     (if Name (Template podTemplate) = [] then ''fence'' else Name (Template podTemplate))
       @ ''-'' @ Name node"
  by (simp add: newJobForNode_def Let_def)

lemma Namespace_newJobForNode: "Namespace (newJobForNode ns node podTemplate) = ns"
  by (simp add: newJobForNode_def Let_def)

lemma podTemplateFor_calls_nodes:
  "podTemplateFor env (w\<lparr>calls := cs, nodes := ns\<rparr>) node = podTemplateFor env w node"
  by (simp add: podTemplateFor_def getPodTemplate_def)

lemma podTemplateFor_patchNode:
  assumes "''fencing/template'' \<notin> fst ` set p"
  shows "podTemplateFor env w (patchNode name p node) = podTemplateFor env w node"
proof -
  have "applyMergePatch p m ''fencing/template'' = m ''fencing/template''" for m
    using assms unfolding applyMergePatch_def
    by (induction p arbitrary: m) auto
  then show ?thesis
    by (simp add: podTemplateFor_def patchNode_def)
qed

lemma getJob_calls_nodes:
  "getJob (w\<lparr>calls := cs, nodes := ns\<rparr>) namespace name = getJob w namespace name"
  by (simp add: getJob_def)

lemma cleared_annotations:
  "Annotations (patchNode (Name node) [(''fencing/state'', None), (''fencing/timestamp'', None)] node)
      ''fencing/state'' = None \<and>
   Annotations (patchNode (Name node) [(''fencing/state'', None), (''fencing/timestamp'', None)] node)
      ''fencing/timestamp'' = None"
  by (simp add: patchNode_def applyMergePatch_def)

lemma started_annotations:
  "Annotations (patchNode (Name node)
      [(''fencing/state'', Some ''started''), (''fencing/timestamp'', None)] node) =
     (Annotations node)(''fencing/state'' \<mapsto> ''started'', ''fencing/timestamp'' := None)"
  by (simp add: patchNode_def applyMergePatch_def)

section \<open>The phases of a pass\<close>

lemma recoveredCleanup_result:
  assumes "fault env Get_149 = None" and "fault env Delete_152 = None"
  shows "fst (recoveredCleanup env w job) = None \<and>
         nodes (snd (recoveredCleanup env w job)) = nodes w \<and>
         getJob (snd (recoveredCleanup env w job)) (Namespace job) (Name job) = None"
proof (cases "getJob w (Namespace job) (Name job)")
  case None
  then show ?thesis
    using assms by (simp add: recoveredCleanup_def client_Get_def)
next
  case (Some found)
  with getJob_named [OF Some] assms show ?thesis
    by (simp add: recoveredCleanup_def client_Get_def client_Delete_def Let_def)
       (simp add: getJob_def find_filter_not)
qed

lemma recoveredCheck_recovered:
  assumes "Status c = ConditionTrue"
      and "fencingState = ''pending'' \<or> fencingState = ''fenced''"
      and "fault env Patch_110 = None"
      and "getNode w (Name node) = Some node"
  shows "recoveredCheck env w node fencingState c =
           (''recovered'',
            patchNode (Name node) [(''fencing/state'', None), (''fencing/timestamp'', None)] node,
            w\<lparr>calls := calls w @
                 [Patch (Name node) [(''fencing/state'', None), (''fencing/timestamp'', None)]],
              nodes := map (patchNode (Name node)
                 [(''fencing/state'', None), (''fencing/timestamp'', None)]) (nodes w)\<rparr>)"
  using assms by (auto simp: recoveredCheck_def client_Patch_def Let_def)

lemma Reconcile_recovered:
  assumes "fault env Get_77 = None"
      and "getNode w request = Some node"
      and "snd (GetNodeCondition (Some (Node_Status node)) NodeReady) = Some c"
      and "Status c = ConditionTrue"
      and "index (Annotations node) ''fencing/state'' = ''pending'' \<or>
           index (Annotations node) ''fencing/state'' = ''fenced''"
      and "fault env Patch_110 = None"
  shows "Reconcile env w request =
           (let p = [(''fencing/state'', None), (''fencing/timestamp'', None)];
                w1 = w\<lparr>calls := calls w @ [Patch request p],
                       nodes := map (patchNode request p) (nodes w)\<rparr>
            in case podTemplateFor env w node of
                 None \<Rightarrow> (None, w1)
               | Some podTemplate \<Rightarrow>
                   recoveredCleanup env w1
                     (newJobForNode (pkg_Namespace env) (patchNode request p node) podTemplate))"
proof -
  have n: "Name node = request"
    using assms(2) by (rule getNode_Name)
  have rc: "recoveredCheck env w node (index (Annotations node) ''fencing/state'') c =
           (''recovered'',
            patchNode request [(''fencing/state'', None), (''fencing/timestamp'', None)] node,
            w\<lparr>calls := calls w @
                 [Patch request [(''fencing/state'', None), (''fencing/timestamp'', None)]],
              nodes := map (patchNode request
                 [(''fencing/state'', None), (''fencing/timestamp'', None)]) (nodes w)\<rparr>)"
    using recoveredCheck_recovered [OF assms(4) assms(5) assms(6), of w node] assms(2) n
    by simp
  show ?thesis
    using assms(1,2,3)
    by (simp add: Reconcile_def client_Get_def rc podTemplateFor_calls_nodes
          podTemplateFor_patchNode withTemplate_def Let_def split: option.splits)
qed

lemma Reconcile_candidate:
  assumes "fault env Get_77 = None"
      and "getNode w request = Some node"
      and "snd (GetNodeCondition (Some (Node_Status node)) NodeReady) = Some c"
      and "Reason c = ''NodeStatusUnknown''"
      and "\<not> (Status c = ConditionTrue \<and> index (Annotations node) ''fencing/state'' = ''pending'')"
      and "index (Annotations node) ''fencing/state'' \<noteq> ''fenced''"
      and "podTemplateFor env w node = Some podTemplate"
  shows "Reconcile env w request =
           withTemplate env w node (index (Annotations node) ''fencing/state'') podTemplate"
proof -
  have "recoveredCheck env w node (index (Annotations node) ''fencing/state'') c =
          (index (Annotations node) ''fencing/state'', node, w)"
    using assms(5,6) by (auto simp: recoveredCheck_def)
  then show ?thesis
    using assms(1,2,3,4,6,7) by (simp add: Reconcile_def client_Get_def)
qed

lemma patchStarted_ok:
  assumes "fault env Patch_241 = None" and "getNode w (Name node) = Some node"
  shows "patchStarted env w node =
           (None, w\<lparr>calls := calls w @
                        [Patch (Name node)
                           [(''fencing/state'', Some ''started''), (''fencing/timestamp'', None)]],
                     nodes := map (patchNode (Name node)
                        [(''fencing/state'', Some ''started''), (''fencing/timestamp'', None)])
                        (nodes w)\<rparr>)"
  using assms by (simp add: patchStarted_def client_Patch_def Let_def)

lemma armingPhase_first:
  assumes "Atoi (timeoutStrFor node podTemplate) = (timeout, None)"
      and "0 <s timeout"
      and "Annotations node ''fencing/timestamp'' = None"
      and "fault env Patch_205 = None"
      and "getNode w (Name node) = Some node"
      and "0 <s timeout - (now_213 env - now_193 env)"
      and "p = [(''fencing/state'', Some ''pending''),
                (''fencing/timestamp'', Some (FormatInt (now_193 env)))]"
  shows "armingPhase env w node [] podTemplate =
           (None, w\<lparr>calls := calls w @
                        [Patch (Name node) p,
                         Go_Sleep_Patch (timeout - (now_213 env - now_193 env)) (Name node)
                           [(''fencing/timestamp'', None)]],
                     nodes := map (patchNode (Name node) p) (nodes w)\<rparr>)"
proof -
  have z: "fst (ParseInt (index (Annotations node) ''fencing/timestamp'')) = 0"
    using assms(3) by (simp add: index_def ParseInt_def)
  show ?thesis
    using assms(2,4,5,6)
    by (simp add: armingPhase_def assms(1) Let_def z client_Patch_def checkRemainTime_def
          Name_patchNode assms(7))
qed

lemma armingPhase_later:
  assumes "Atoi (timeoutStrFor node podTemplate) = (timeout, None)"
      and "0 <s timeout"
      and "fencingState \<noteq> []"
  shows "armingPhase env w node fencingState podTemplate =
           checkRemainTime env w node timeout
             (fst (ParseInt (index (Annotations node) ''fencing/timestamp'')))"
  using assms(2,3) by (simp add: armingPhase_def assms(1) Let_def)

section \<open>The example cluster\<close>

lemmas ex_defs = ex_node_def ex_env_def ex_world_def ex_template_def ex_job_def
  zeroPodTemplateSpec_def zeroPodTemplate_def

lemmas pass_defs = Reconcile_def client_Get_def recoveredCheck_def index_def getNode_def
  client_Patch_def Let_def patchNode_def applyMergePatch_def podTemplateFor_def
  getPodTemplate_def named_def withTemplate_def recoveredCleanup_def newJobForNode_def
  getJob_def client_Delete_def client_Create_def IsNotFound_def armingPhase_def
  executionPhase_def patchStarted_def checkRemainTime_def timeoutStrFor_def

lemma ex_ready: "snd (GetNodeCondition (Some (Node_Status (ex_node anns status reason))) NodeReady) =
   Some \<lparr>Type = ''Ready'', Status = status, Reason = reason\<rparr>"
  by (simp add: ex_node_def)

lemma ex_getNode: "getNode (ex_world (ex_node anns status reason) js) ''n1'' =
   Some (ex_node anns status reason)"
  by (simp add: getNode_def ex_world_def ex_node_def)

lemma ex_podTemplateFor:
  "anns ''fencing/template'' = None \<Longrightarrow> fault env Get_136 = None \<Longrightarrow>
   pkg_Namespace env = ''fencing'' \<Longrightarrow>
   podTemplateFor env (ex_world n js) (ex_node anns status reason) = Some ex_template"
  by (simp add: podTemplateFor_def ex_node_def ex_world_def getPodTemplate_def named_def
        client_Get_def ex_template_def Let_def)

section \<open>Fenced nodes\<close>

text \<open>
  Claim C1 says that a node whose \<^verbatim>\<open>fencing/state\<close> is \<^verbatim>\<open>fenced\<close> is left alone whatever
  its readiness. It is not when the node is ready: the pass of the fenced and ready example
  node sends the patch that removes \<^verbatim>\<open>fencing/state\<close> and \<^verbatim>\<open>fencing/timestamp\<close> and deletes
  the job \<^verbatim>\<open>fence-n1\<close> (lines 97-116 and 146-158).
\<close>

theorem Reconcile_fenced_ready_counterexample:
  "index (Annotations (ex_node [''fencing/state'' \<mapsto> ''fenced''] ''True'' ''KubeletReady''))
      ''fencing/state'' = ''fenced'' \<and>
   calls (snd (Reconcile ex_env
      (ex_world (ex_node [''fencing/state'' \<mapsto> ''fenced''] ''True'' ''KubeletReady'')
         [ex_job ''Complete'']) ''n1'')) =
     [Patch ''n1'' [(''fencing/state'', None), (''fencing/timestamp'', None)],
      Delete ''fencing'' ''fence-n1'']"
  by (simp add: Reconcile_def client_Get_def recoveredCheck_def index_def ex_node_def ex_env_def
        ex_world_def getNode_def client_Patch_def Let_def patchNode_def applyMergePatch_def
        podTemplateFor_def getPodTemplate_def named_def ex_template_def withTemplate_def
        recoveredCleanup_def newJobForNode_def zeroPodTemplateSpec_def getJob_def ex_job_def
        client_Delete_def IsNotFound_def)

text \<open>
  Claim C1, amended. For every stored node whose \<^verbatim>\<open>fencing/state\<close> is \<^verbatim>\<open>fenced\<close> and whose
  \<^verbatim>\<open>Ready\<close> condition is absent or has a status other than \<^verbatim>\<open>True\<close>, whatever the reason
  of the condition, the other annotations and the outcome of the client's calls, one pass
  leaves the world as it is: it issues no patch, creates and deletes no job, and the node's
  annotations are unchanged.
\<close>

theorem Reconcile_fenced_unready_no_effect:
  assumes "getNode w request = Some node"
      and "Annotations node ''fencing/state'' = Some ''fenced''"
      and "\<forall>c. snd (GetNodeCondition (Some (Node_Status node)) NodeReady) = Some c
              \<longrightarrow> Status c \<noteq> ConditionTrue"
  shows "snd (Reconcile env w request) = w"
  using assms
  by (simp add: Reconcile_def client_Get_def recoveredCheck_def index_def
           split: option.splits)

theorem Reconcile_fenced_unready_no_effect_witness:
  "snd (Reconcile ex_env
      (ex_world (ex_node [''fencing/state'' \<mapsto> ''fenced''] ''Unknown'' ''NodeStatusUnknown'')
         [ex_job ''Complete'']) ''n1'') =
   ex_world (ex_node [''fencing/state'' \<mapsto> ''fenced''] ''Unknown'' ''NodeStatusUnknown'')
         [ex_job ''Complete'']"
  by (rule Reconcile_fenced_unready_no_effect [OF ex_getNode])
     (simp_all add: ex_node_def)

section \<open>Starting without a timeout\<close>

text \<open>
  Claim C2 says that one pass both patches \<^verbatim>\<open>fencing/state\<close> to \<^verbatim>\<open>started\<close> and creates the
  job. The pass of the example node (reason \<^verbatim>\<open>NodeStatusUnknown\<close>, \<^verbatim>\<open>fencing/enabled=true\<close>, no
  timeout, no state) sends the patch and returns (line 246): it creates no job.
\<close>

theorem Reconcile_no_timeout_counterexample:
  "calls (snd (Reconcile ex_env
      (ex_world (ex_node [''fencing/enabled'' \<mapsto> ''true''] ''Unknown'' ''NodeStatusUnknown'') [])
      ''n1'')) =
     [Patch ''n1'' [(''fencing/state'', Some ''started''), (''fencing/timestamp'', None)]] \<and>
   jobs (snd (Reconcile ex_env
      (ex_world (ex_node [''fencing/enabled'' \<mapsto> ''true''] ''Unknown'' ''NodeStatusUnknown'') [])
      ''n1'')) = []"
  by (simp add: pass_defs ex_defs Atoi_0)

text \<open>
  Claim C2, amended. For every node with readiness reason \<^verbatim>\<open>NodeStatusUnknown\<close>,
  \<^verbatim>\<open>fencing/enabled=true\<close>, a timeout that is absent on node and template or \<^verbatim>\<open>"0"\<close>, and no
  \<^verbatim>\<open>fencing/state\<close>, one pass patches \<^verbatim>\<open>fencing/state\<close> to \<^verbatim>\<open>started\<close> (removing
  \<^verbatim>\<open>fencing/timestamp\<close>) and creates no job; the next pass on the patched node creates the job
  named \<^verbatim>\<open>fence-\<close> + node name, when the template's pod name is empty and no job of that
  name exists. The client's calls are taken to succeed.
\<close>

theorem Reconcile_no_timeout_starts_then_creates:
  assumes "fault env Get_77 = None"
      and "getNode w request = Some node"
      and "snd (GetNodeCondition (Some (Node_Status node)) NodeReady) = Some c"
      and "Reason c = ''NodeStatusUnknown''"
      and "Annotations node ''fencing/state'' = None"
      and "podTemplateFor env w node = Some podTemplate"
      and "Name (Template podTemplate) = []"
      and "Annotations node ''fencing/enabled'' = Some ''true''"
      and "timeoutStrFor node podTemplate = ''0''"
      and "fault env Patch_241 = None"
      and "p = [(''fencing/state'', Some ''started''), (''fencing/timestamp'', None)]"
      and "w1 = w\<lparr>calls := calls w @ [Patch request p],
                     nodes := map (patchNode request p) (nodes w)\<rparr>"
      and "job = newJobForNode (pkg_Namespace env) (patchNode request p node) podTemplate"
      and "pkg_Namespace env2 = pkg_Namespace env"
      and "podTemplateFor env2 w node = Some podTemplate"
      and "fault env2 Get_77 = None"
      and "fault env2 Get_255 = None"
      and "fault env2 Create_286 = None"
      and "getJob w (pkg_Namespace env) (''fence-'' @ request) = None"
  shows "Reconcile env w request = (None, w1) \<and>
         Reconcile env2 w1 request =
           (None, w1\<lparr>calls := calls w1 @ [Create job], jobs := jobs w1 @ [job]\<rparr>) \<and>
         Name job = ''fence-'' @ request"
proof (intro conjI)
  have n: "Name node = request"
    using assms(2) by (rule getNode_Name)
  let ?node1 = "patchNode request p node"
  have st: "index (Annotations node) ''fencing/state'' = []"
    using assms(5) by (simp add: index_def)
  have en: "index (Annotations node) ''fencing/enabled'' = ''true''"
    using assms(8) by (simp add: index_def)
  have "Reconcile env w request = withTemplate env w node [] podTemplate"
    using Reconcile_candidate [OF assms(1-4) _ _ assms(6)] st by simp
  also have "\<dots> = armingPhase env w node [] podTemplate"
    using en by (simp add: withTemplate_def)
  also have "\<dots> = patchStarted env w node"
    by (simp add: armingPhase_def assms(9) Atoi_0)
  also have "\<dots> = (None, w1)"
    using patchStarted_ok [OF assms(10), of w node] assms(2) n
    by (simp add: assms(11,12))
  finally show "Reconcile env w request = (None, w1)" .
  show name: "Name job = ''fence-'' @ request"
    by (simp add: assms(13) Name_newJobForNode assms(7) Name_patchNode n)
  have ann: "Annotations ?node1 =
               (Annotations node)(''fencing/state'' \<mapsto> ''started'', ''fencing/timestamp'' := None)"
    using started_annotations [of node] n by (simp add: assms(11))
  have g1: "getNode w1 request = Some ?node1"
    using assms(2) by (simp add: assms(12) getNode_patched)
  have c1: "snd (GetNodeCondition (Some (Node_Status ?node1)) NodeReady) = Some c"
    using assms(3) by (simp add: Node_Status_patchNode)
  have st1: "index (Annotations ?node1) ''fencing/state'' = ''started''"
    by (simp add: ann index_def)
  have en1: "index (Annotations ?node1) ''fencing/enabled'' = ''true''"
    using assms(8) by (simp add: ann index_def)
  have t1: "podTemplateFor env2 w1 ?node1 = Some podTemplate"
    using assms(15)
    by (simp add: assms(11,12) podTemplateFor_calls_nodes podTemplateFor_patchNode)
  have j1: "getJob w1 (Namespace job) (Name job) = None"
    using assms(19) name
    by (simp add: assms(12,13) getJob_calls_nodes Namespace_newJobForNode)
  have "Reconcile env2 w1 request = withTemplate env2 w1 ?node1 ''started'' podTemplate"
    using Reconcile_candidate [OF assms(16) g1 c1 assms(4) _ _ t1] st1 by simp
  also have "\<dots> = executionPhase env2 w1 ?node1 job"
    using en1 by (simp add: withTemplate_def assms(13,14))
  also have "\<dots> = (None, w1\<lparr>calls := calls w1 @ [Create job], jobs := jobs w1 @ [job]\<rparr>)"
    using j1 assms(17,18)
    by (simp add: executionPhase_def client_Get_def IsNotFound_def client_Create_def Let_def)
  finally show "Reconcile env2 w1 request =
           (None, w1\<lparr>calls := calls w1 @ [Create job], jobs := jobs w1 @ [job]\<rparr>)" .
qed

theorem Reconcile_no_timeout_starts_then_creates_witness:
  "Name (newJobForNode ''fencing''
           (patchNode ''n1'' [(''fencing/state'', Some ''started''), (''fencing/timestamp'', None)]
              (ex_node [''fencing/enabled'' \<mapsto> ''true''] ''Unknown'' ''NodeStatusUnknown''))
           ex_template) = ''fence-n1'' \<and>
   calls (snd (Reconcile ex_env
     (snd (Reconcile ex_env
        (ex_world (ex_node [''fencing/enabled'' \<mapsto> ''true''] ''Unknown'' ''NodeStatusUnknown'') [])
        ''n1'')) ''n1'')) =
     [Patch ''n1'' [(''fencing/state'', Some ''started''), (''fencing/timestamp'', None)],
      Create (newJobForNode ''fencing''
           (patchNode ''n1'' [(''fencing/state'', Some ''started''), (''fencing/timestamp'', None)]
              (ex_node [''fencing/enabled'' \<mapsto> ''true''] ''Unknown'' ''NodeStatusUnknown''))
           ex_template)]"
proof -
  let ?N = "ex_node [''fencing/enabled'' \<mapsto> ''true''] ''Unknown'' ''NodeStatusUnknown''"
  let ?W = "ex_world ?N []"
  have h1: "fault ex_env Get_77 = None" "fault ex_env Patch_241 = None"
           "fault ex_env Get_255 = None" "fault ex_env Create_286 = None"
    by (simp_all add: ex_env_def)
  have h2: "Reason \<lparr>Type = ''Ready'', Status = ''Unknown'', Reason = ''NodeStatusUnknown''\<rparr> =
              ''NodeStatusUnknown''"
    by simp
  have h3: "Annotations ?N ''fencing/state'' = None"
           "Annotations ?N ''fencing/enabled'' = Some ''true''"
    by (simp_all add: ex_node_def)
  have h4: "podTemplateFor ex_env ?W ?N = Some ex_template"
    by (rule ex_podTemplateFor) (simp_all add: ex_env_def)
  have h5: "Name (Template ex_template) = []"
    by (simp add: ex_template_def zeroPodTemplateSpec_def)
  have h6: "timeoutStrFor ?N ex_template = ''0''"
    by (simp add: timeoutStrFor_def ex_node_def ex_template_def)
  have h7: "getJob ?W (pkg_Namespace ex_env) (''fence-'' @ ''n1'') = None"
    by (simp add: getJob_def ex_world_def)
  have ns: "pkg_Namespace ex_env = ''fencing''"
    by (simp add: ex_env_def)
  show ?thesis
    using Reconcile_no_timeout_starts_then_creates
            [OF h1(1) ex_getNode ex_ready h2 h3(1) h4 h5 h3(2) h6 h1(2) refl refl refl refl
                h4 h1(1) h1(3) h1(4) h7]
    by (simp add: ns ex_world_def)
qed

section \<open>Recovery\<close>

text \<open>
  Claim C3 says that a ready node is reset from every persisted state, \<^verbatim>\<open>started\<close>
  included. The recovery check of lines 97-116 names \<^verbatim>\<open>pending\<close> and \<^verbatim>\<open>fenced\<close> only: the
  pass of a ready node in state \<^verbatim>\<open>started\<close> (reason \<^verbatim>\<open>KubeletReady\<close>) changes nothing, the
  annotation stays and the finished job \<^verbatim>\<open>fence-n1\<close> stays.
\<close>

theorem Reconcile_started_ready_counterexample:
  "Reconcile ex_env
      (ex_world (ex_node [''fencing/enabled'' \<mapsto> ''true'', ''fencing/state'' \<mapsto> ''started'']
                   ''True'' ''KubeletReady'') [ex_job ''Complete'']) ''n1'' =
     (None,
      ex_world (ex_node [''fencing/enabled'' \<mapsto> ''true'', ''fencing/state'' \<mapsto> ''started'']
                   ''True'' ''KubeletReady'') [ex_job ''Complete''])"
  by (simp add: pass_defs ex_defs)

text \<open>
  Claim C3, amended. For a persisted state \<^verbatim>\<open>pending\<close> or \<^verbatim>\<open>fenced\<close>, a pass in which the
  \<^verbatim>\<open>Ready\<close> condition has status \<^verbatim>\<open>True\<close> resets the node: afterwards \<^verbatim>\<open>fencing/state\<close> and
  \<^verbatim>\<open>fencing/timestamp\<close> are absent and no job of the deterministic name exists, when the pod
  template is available and the client's calls succeed. Other states are not reset.
\<close>

theorem Reconcile_ready_resets_pending_or_fenced:
  assumes "fault env Get_77 = None"
      and "getNode w request = Some node"
      and "snd (GetNodeCondition (Some (Node_Status node)) NodeReady) = Some c"
      and "Status c = ConditionTrue"
      and "index (Annotations node) ''fencing/state'' = ''pending'' \<or>
           index (Annotations node) ''fencing/state'' = ''fenced''"
      and "fault env Patch_110 = None"
      and "podTemplateFor env w node = Some podTemplate"
      and "fault env Get_149 = None"
      and "fault env Delete_152 = None"
  shows "fst (Reconcile env w request) = None \<and>
         (\<exists>node'. getNode (snd (Reconcile env w request)) request = Some node' \<and>
                  Annotations node' ''fencing/state'' = None \<and>
                  Annotations node' ''fencing/timestamp'' = None) \<and>
         getJob (snd (Reconcile env w request)) (pkg_Namespace env)
           (Name (newJobForNode (pkg_Namespace env) node podTemplate)) = None"
proof -
  let ?p = "[(''fencing/state'', None), (''fencing/timestamp'', None)]"
  let ?w1 = "w\<lparr>calls := calls w @ [Patch request ?p],
                 nodes := map (patchNode request ?p) (nodes w)\<rparr>"
  let ?job = "newJobForNode (pkg_Namespace env) (patchNode request ?p node) podTemplate"
  have n: "Name node = request"
    using assms(2) by (rule getNode_Name)
  have R: "Reconcile env w request = recoveredCleanup env ?w1 ?job"
    using Reconcile_recovered [OF assms(1-6)] assms(7) by (simp add: Let_def)
  have job: "Name ?job = Name (newJobForNode (pkg_Namespace env) node podTemplate)"
            "Namespace ?job = pkg_Namespace env"
    by (simp_all add: Name_newJobForNode Namespace_newJobForNode Name_patchNode)
  have C: "fst (recoveredCleanup env ?w1 ?job) = None"
          "nodes (snd (recoveredCleanup env ?w1 ?job)) = nodes ?w1"
          "getJob (snd (recoveredCleanup env ?w1 ?job)) (Namespace ?job) (Name ?job) = None"
    using recoveredCleanup_result [OF assms(8,9), of ?w1 ?job] by simp_all
  have "getNode (snd (recoveredCleanup env ?w1 ?job)) request = getNode ?w1 request"
    using C(2) by (simp add: getNode_def)
  also have "\<dots> = Some (patchNode request ?p node)"
    using assms(2) by (simp add: getNode_patched)
  finally have N: "getNode (snd (recoveredCleanup env ?w1 ?job)) request =
                     Some (patchNode request ?p node)" .
  show ?thesis
    unfolding R using C(1) C(3) N cleared_annotations [of node] job n by simp
qed

theorem Reconcile_ready_resets_pending_or_fenced_witness:
  "fst (Reconcile ex_env
      (ex_world (ex_node [''fencing/state'' \<mapsto> ''pending'', ''fencing/timestamp'' \<mapsto> ''1000'']
                   ''True'' ''KubeletReady'') [ex_job ''Complete'']) ''n1'') = None \<and>
   getJob (snd (Reconcile ex_env
      (ex_world (ex_node [''fencing/state'' \<mapsto> ''pending'', ''fencing/timestamp'' \<mapsto> ''1000'']
                   ''True'' ''KubeletReady'') [ex_job ''Complete'']) ''n1'')) ''fencing'' ''fence-n1'' =
     None"
proof -
  let ?N = "ex_node [''fencing/state'' \<mapsto> ''pending'', ''fencing/timestamp'' \<mapsto> ''1000'']
                   ''True'' ''KubeletReady''"
  let ?W = "ex_world ?N [ex_job ''Complete'']"
  have h1: "fault ex_env Get_77 = None" "fault ex_env Patch_110 = None"
           "fault ex_env Get_149 = None" "fault ex_env Delete_152 = None"
    by (simp_all add: ex_env_def)
  have h2: "Status \<lparr>Type = ''Ready'', Status = ''True'', Reason = ''KubeletReady''\<rparr> = ConditionTrue"
    by simp
  have h3: "index (Annotations ?N) ''fencing/state'' = ''pending'' \<or>
            index (Annotations ?N) ''fencing/state'' = ''fenced''"
    by (simp add: ex_node_def index_def)
  have h4: "podTemplateFor ex_env ?W ?N = Some ex_template"
    by (rule ex_podTemplateFor) (simp_all add: ex_env_def)
  have n: "Name (newJobForNode (pkg_Namespace ex_env) ?N ex_template) = ''fence-n1''"
    by (simp add: Name_newJobForNode ex_template_def zeroPodTemplateSpec_def ex_node_def)
  show ?thesis
    using Reconcile_ready_resets_pending_or_fenced
            [OF h1(1) ex_getNode ex_ready h2 h3 h1(2) h4 h1(3) h1(4)]
    by (simp add: n) (simp add: ex_env_def)
qed

lemma podTemplateFor_calls:
  "podTemplateFor env (w\<lparr>calls := cs\<rparr>) node = podTemplateFor env w node"
  by (simp add: podTemplateFor_def getPodTemplate_def)

lemma nodes_recoveredCleanup: "nodes (snd (recoveredCleanup env w job)) = nodes w"
  by (simp add: recoveredCleanup_def client_Get_def client_Delete_def Let_def
        split: option.splits sum.splits)

lemma Reconcile_recovered_patch_fails:
  assumes "fault env Get_77 = None"
      and "getNode w request = Some node"
      and "snd (GetNodeCondition (Some (Node_Status node)) NodeReady) = Some c"
      and "Status c = ConditionTrue"
      and "index (Annotations node) ''fencing/state'' = ''pending'' \<or>
           index (Annotations node) ''fencing/state'' = ''fenced''"
      and "fault env Patch_110 = Some err"
  shows "Reconcile env w request =
           (let p = [(''fencing/state'', None), (''fencing/timestamp'', None)];
                w1 = w\<lparr>calls := calls w @ [Patch request p]\<rparr>
            in case podTemplateFor env w node of
                 None \<Rightarrow> (None, w1)
               | Some podTemplate \<Rightarrow>
                   recoveredCleanup env w1 (newJobForNode (pkg_Namespace env) node podTemplate))"
proof -
  have n: "Name node = request"
    using assms(2) by (rule getNode_Name)
  have rc: "recoveredCheck env w node (index (Annotations node) ''fencing/state'') c =
           (''recovered'', node,
            w\<lparr>calls := calls w @
                 [Patch request [(''fencing/state'', None), (''fencing/timestamp'', None)]]\<rparr>)"
    using assms(4,5,6) n by (auto simp: recoveredCheck_def client_Patch_def Let_def)
  show ?thesis
    using assms(1,2,3)
    by (simp add: Reconcile_def client_Get_def rc podTemplateFor_calls withTemplate_def Let_def
          split: option.splits)
qed

text \<open>
  Claim C4 says that a ready node in state \<^verbatim>\<open>pending\<close> or \<^verbatim>\<open>fenced\<close> always has both
  annotations absent after the pass. The error of the patch of line 110 is logged and
  dropped (lines 111-113): when the server refuses the patch, the pass of the example node
  still ends without an error and deletes the job, and the stored node keeps
  \<^verbatim>\<open>fencing/state=pending\<close> and \<^verbatim>\<open>fencing/timestamp=1000\<close>.
\<close>

theorem Reconcile_ready_patch_fails_counterexample:
  "fst (Reconcile (ex_env\<lparr>fault := (\<lambda>s. None)(Patch_110 \<mapsto> OtherError ''conflict'')\<rparr>)
      (ex_world (ex_node [''fencing/state'' \<mapsto> ''pending'', ''fencing/timestamp'' \<mapsto> ''1000'']
                   ''True'' ''KubeletReady'') [ex_job ''Complete'']) ''n1'') = None \<and>
   nodes (snd (Reconcile (ex_env\<lparr>fault := (\<lambda>s. None)(Patch_110 \<mapsto> OtherError ''conflict'')\<rparr>)
      (ex_world (ex_node [''fencing/state'' \<mapsto> ''pending'', ''fencing/timestamp'' \<mapsto> ''1000'']
                   ''True'' ''KubeletReady'') [ex_job ''Complete'']) ''n1'')) =
     [ex_node [''fencing/state'' \<mapsto> ''pending'', ''fencing/timestamp'' \<mapsto> ''1000'']
                   ''True'' ''KubeletReady''] \<and>
   Annotations (ex_node [''fencing/state'' \<mapsto> ''pending'', ''fencing/timestamp'' \<mapsto> ''1000'']
                   ''True'' ''KubeletReady'') ''fencing/state'' = Some ''pending'' \<and>
   Annotations (ex_node [''fencing/state'' \<mapsto> ''pending'', ''fencing/timestamp'' \<mapsto> ''1000'']
                   ''True'' ''KubeletReady'') ''fencing/timestamp'' = Some ''1000'' \<and>
   calls (snd (Reconcile (ex_env\<lparr>fault := (\<lambda>s. None)(Patch_110 \<mapsto> OtherError ''conflict'')\<rparr>)
      (ex_world (ex_node [''fencing/state'' \<mapsto> ''pending'', ''fencing/timestamp'' \<mapsto> ''1000'']
                   ''True'' ''KubeletReady'') [ex_job ''Complete'']) ''n1'')) =
     [Patch ''n1'' [(''fencing/state'', None), (''fencing/timestamp'', None)],
      Delete ''fencing'' ''fence-n1'']"
  by (simp add: pass_defs ex_defs)

text \<open>
  Claim C4, amended. For every node whose \<^verbatim>\<open>Ready\<close> condition has status \<^verbatim>\<open>True\<close> while
  \<^verbatim>\<open>fencing/state\<close> is \<^verbatim>\<open>pending\<close> or \<^verbatim>\<open>fenced\<close>, the pass sends the patch that removes
  \<^verbatim>\<open>fencing/state\<close> and \<^verbatim>\<open>fencing/timestamp\<close> and goes on as recovered: the rest of the pass
  is the template fetch and the cleanup of lines 146-158. When the server accepts the patch,
  both annotations are absent from the stored node afterwards; when it refuses, the stored
  node is as before.
\<close>

theorem Reconcile_ready_recovers_when_patched:
  assumes "fault env Get_77 = None"
      and "getNode w request = Some node"
      and "snd (GetNodeCondition (Some (Node_Status node)) NodeReady) = Some c"
      and "Status c = ConditionTrue"
      and "index (Annotations node) ''fencing/state'' = ''pending'' \<or>
           index (Annotations node) ''fencing/state'' = ''fenced''"
      and "p = [(''fencing/state'', None), (''fencing/timestamp'', None)]"
  shows "(fault env Patch_110 = None \<longrightarrow>
            (\<exists>node'. getNode (snd (Reconcile env w request)) request = Some node' \<and>
                     Annotations node' ''fencing/state'' = None \<and>
                     Annotations node' ''fencing/timestamp'' = None) \<and>
            Reconcile env w request =
              (let w1 = w\<lparr>calls := calls w @ [Patch request p],
                          nodes := map (patchNode request p) (nodes w)\<rparr>
               in case podTemplateFor env w node of
                    None \<Rightarrow> (None, w1)
                  | Some podTemplate \<Rightarrow>
                      recoveredCleanup env w1
                        (newJobForNode (pkg_Namespace env) (patchNode request p node) podTemplate))) \<and>
         (fault env Patch_110 = Some err \<longrightarrow>
            getNode (snd (Reconcile env w request)) request = Some node \<and>
            Reconcile env w request =
              (let w1 = w\<lparr>calls := calls w @ [Patch request p]\<rparr>
               in case podTemplateFor env w node of
                    None \<Rightarrow> (None, w1)
                  | Some podTemplate \<Rightarrow>
                      recoveredCleanup env w1
                        (newJobForNode (pkg_Namespace env) node podTemplate)))"
proof (intro conjI impI)
  let ?w1 = "w\<lparr>calls := calls w @ [Patch request p],
                 nodes := map (patchNode request p) (nodes w)\<rparr>"
  have n: "Name node = request"
    using assms(2) by (rule getNode_Name)
  {
    assume ok: "fault env Patch_110 = None"
    show R: "Reconcile env w request =
              (let w1 = w\<lparr>calls := calls w @ [Patch request p],
                          nodes := map (patchNode request p) (nodes w)\<rparr>
               in case podTemplateFor env w node of
                    None \<Rightarrow> (None, w1)
                  | Some podTemplate \<Rightarrow>
                      recoveredCleanup env w1
                        (newJobForNode (pkg_Namespace env) (patchNode request p node) podTemplate))"
      using Reconcile_recovered [OF assms(1-5) ok] unfolding assms(6) Let_def by simp
    have "nodes (snd (Reconcile env w request)) = nodes ?w1"
      unfolding R Let_def by (simp add: nodes_recoveredCleanup split: option.splits)
    then have "getNode (snd (Reconcile env w request)) request = getNode ?w1 request"
      by (simp add: getNode_def)
    also have "\<dots> = Some (patchNode request p node)"
      using assms(2) by (simp add: getNode_patched)
    finally show "\<exists>node'. getNode (snd (Reconcile env w request)) request = Some node' \<and>
                     Annotations node' ''fencing/state'' = None \<and>
                     Annotations node' ''fencing/timestamp'' = None"
      using cleared_annotations [of node] n by (simp add: assms(6))
  }
  {
    assume bad: "fault env Patch_110 = Some err"
    show R: "Reconcile env w request =
              (let w1 = w\<lparr>calls := calls w @ [Patch request p]\<rparr>
               in case podTemplateFor env w node of
                    None \<Rightarrow> (None, w1)
                  | Some podTemplate \<Rightarrow>
                      recoveredCleanup env w1
                        (newJobForNode (pkg_Namespace env) node podTemplate))"
      using Reconcile_recovered_patch_fails [OF assms(1-5) bad] unfolding assms(6) Let_def by simp
    have "nodes (snd (Reconcile env w request)) = nodes w"
      unfolding R Let_def by (simp add: nodes_recoveredCleanup split: option.splits)
    then show "getNode (snd (Reconcile env w request)) request = Some node"
      using assms(2) by (simp add: getNode_def)
  }
qed

theorem Reconcile_ready_recovers_when_patched_witness:
  "calls (snd (Reconcile ex_env
      (ex_world (ex_node [''fencing/state'' \<mapsto> ''fenced''] ''True'' ''KubeletReady'')
         [ex_job ''Complete'']) ''n1'')) =
     [Patch ''n1'' [(''fencing/state'', None), (''fencing/timestamp'', None)],
      Delete ''fencing'' ''fence-n1''] \<and>
   getNode (snd (Reconcile (ex_env\<lparr>fault := (\<lambda>s. None)(Patch_110 \<mapsto> OtherError ''conflict'')\<rparr>)
      (ex_world (ex_node [''fencing/state'' \<mapsto> ''fenced''] ''True'' ''KubeletReady'')
         [ex_job ''Complete'']) ''n1'')) ''n1'' =
     Some (ex_node [''fencing/state'' \<mapsto> ''fenced''] ''True'' ''KubeletReady'')"
proof -
  let ?N = "ex_node [''fencing/state'' \<mapsto> ''fenced''] ''True'' ''KubeletReady''"
  let ?W = "ex_world ?N [ex_job ''Complete'']"
  let ?p = "[(''fencing/state'', None), (''fencing/timestamp'', None)]"
  let ?bad = "ex_env\<lparr>fault := (\<lambda>s. None)(Patch_110 \<mapsto> OtherError ''conflict'')\<rparr>"
  have h1: "fault ex_env Get_77 = None" "fault ex_env Patch_110 = None"
           "fault ?bad Get_77 = None" "fault ?bad Patch_110 = Some (OtherError ''conflict'')"
    by (simp_all add: ex_env_def)
  have h2: "Status \<lparr>Type = ''Ready'', Status = ''True'', Reason = ''KubeletReady''\<rparr> = ConditionTrue"
    by simp
  have h3: "index (Annotations ?N) ''fencing/state'' = ''pending'' \<or>
            index (Annotations ?N) ''fencing/state'' = ''fenced''"
    by (simp add: ex_node_def index_def)
  have t: "podTemplateFor ex_env ?W ?N = Some ex_template"
    by (rule ex_podTemplateFor) (simp_all add: ex_env_def)
  have r1: "Reconcile ex_env ?W ''n1'' =
              (let w1 = ?W\<lparr>calls := calls ?W @ [Patch ''n1'' ?p],
                           nodes := map (patchNode ''n1'' ?p) (nodes ?W)\<rparr>
               in case podTemplateFor ex_env ?W ?N of
                    None \<Rightarrow> (None, w1)
                  | Some podTemplate \<Rightarrow>
                      recoveredCleanup ex_env w1
                        (newJobForNode (pkg_Namespace ex_env) (patchNode ''n1'' ?p ?N) podTemplate))"
    using Reconcile_ready_recovers_when_patched
            [OF h1(1) ex_getNode ex_ready h2 h3 refl, of "[ex_job ''Complete'']"] h1(2)
    by blast
  have r2: "getNode (snd (Reconcile ?bad ?W ''n1'')) ''n1'' = Some ?N"
    using Reconcile_ready_recovers_when_patched
            [OF h1(3) ex_getNode ex_ready h2 h3 refl, of "[ex_job ''Complete'']"
                "OtherError ''conflict''"] h1(4)
    by blast
  have c: "calls (snd (Reconcile ex_env ?W ''n1'')) =
             [Patch ''n1'' ?p, Delete ''fencing'' ''fence-n1'']"
    unfolding r1 t
    by (simp add: Let_def recoveredCleanup_def client_Get_def client_Delete_def getJob_def
          named_def Name_newJobForNode Namespace_newJobForNode Name_patchNode ex_defs)
  show ?thesis
    using c r2 by simp
qed

section \<open>The execution phase\<close>

text \<open>
  Claim C5. In a pass that reaches the execution phase (state \<^verbatim>\<open>started\<close>) and finds the job
  of the deterministic name: with neither a \<^verbatim>\<open>Complete\<close> nor a \<^verbatim>\<open>Failed\<close> condition the pass
  changes nothing; with either of them it deletes the job and, the deletion done, issues
  the creation of the built job under the same name; when the creation succeeds too the
  store holds the fresh job in place of the old one. The two conditions are treated alike.
\<close>

theorem Reconcile_started_job_found:
  assumes "fault env Get_77 = None"
      and "getNode w request = Some node"
      and "snd (GetNodeCondition (Some (Node_Status node)) NodeReady) = Some c"
      and "Reason c = ''NodeStatusUnknown''"
      and "index (Annotations node) ''fencing/state'' = ''started''"
      and "podTemplateFor env w node = Some podTemplate"
      and "index (Annotations node) ''fencing/enabled'' = ''true''"
      and "job = newJobForNode (pkg_Namespace env) node podTemplate"
      and "fault env Get_255 = None"
      and "getJob w (Namespace job) (Name job) = Some found"
  shows "(snd (GetJobCondition (Some (Job_Status found)) JobComplete) = None \<and>
          snd (GetJobCondition (Some (Job_Status found)) JobFailed) = None
            \<longrightarrow> Reconcile env w request = (None, w)) \<and>
         ((snd (GetJobCondition (Some (Job_Status found)) JobComplete) \<noteq> None \<or>
           snd (GetJobCondition (Some (Job_Status found)) JobFailed) \<noteq> None) \<and>
          fault env Delete_278 = None
            \<longrightarrow> calls (snd (Reconcile env w request)) =
                  calls w @ [Delete (Namespace job) (Name job), Create job]) \<and>
         ((snd (GetJobCondition (Some (Job_Status found)) JobComplete) \<noteq> None \<or>
           snd (GetJobCondition (Some (Job_Status found)) JobFailed) \<noteq> None) \<and>
          fault env Delete_278 = None \<and> fault env Create_286 = None
            \<longrightarrow> Reconcile env w request =
                  (None, w\<lparr>calls := calls w @ [Delete (Namespace job) (Name job), Create job],
                            jobs := filter (\<lambda>j. \<not> named (Namespace job) (Name job) j) (jobs w)
                                      @ [job]\<rparr>))"
proof -
  have "Reconcile env w request =
          withTemplate env w node (index (Annotations node) ''fencing/state'') podTemplate"
    using assms(1-6) by (intro Reconcile_candidate) simp_all
  then have R: "Reconcile env w request = executionPhase env w node job"
    using assms(5,7,8) by (simp add: withTemplate_def Let_def)
  have f: "Name found = Name job" "Namespace found = Namespace job"
    using getJob_named [OF assms(10)] by simp_all
  let ?w1 = "w\<lparr>calls := calls w @ [Delete (Namespace job) (Name job)],
                 jobs := filter (\<lambda>j. \<not> named (Namespace job) (Name job) j) (jobs w)\<rparr>"
  have D: "fault env Delete_278 = None \<Longrightarrow> client_Delete env Delete_278 w found = (None, ?w1)"
    using assms(10) f by (simp add: client_Delete_def Let_def)
  have G: "getJob ?w1 (Namespace job) (Name job) = None"
    by (simp add: getJob_def find_filter_not)
  have C1: "calls (snd (client_Create env Create_286 ?w1 job)) =
              calls w @ [Delete (Namespace job) (Name job), Create job]"
    by (simp add: client_Create_def Let_def split: option.splits)
  have C2: "fault env Create_286 = None \<Longrightarrow>
            client_Create env Create_286 ?w1 job =
              (None, w\<lparr>calls := calls w @ [Delete (Namespace job) (Name job), Create job],
                        jobs := filter (\<lambda>j. \<not> named (Namespace job) (Name job) j) (jobs w)
                                  @ [job]\<rparr>)"
    using G by (simp add: client_Create_def Let_def)
  have E: "executionPhase env w node job =
             (if snd (GetJobCondition (Some (Job_Status found)) JobComplete) = None \<and>
                 snd (GetJobCondition (Some (Job_Status found)) JobFailed) = None
              then (None, w)
              else (case client_Delete env Delete_278 w found of
                      (Some err, w') \<Rightarrow> (Some err, w')
                    | (None, w') \<Rightarrow> client_Create env Create_286 w' job))"
    using assms(9,10)
    by (simp add: executionPhase_def client_Get_def Let_def split: prod.splits option.splits)
  show ?thesis
    unfolding R E using D C1 C2 by auto
qed

theorem Reconcile_started_job_found_witness:
  "Reconcile ex_env
      (ex_world (ex_node [''fencing/enabled'' \<mapsto> ''true'', ''fencing/state'' \<mapsto> ''started'']
                   ''Unknown'' ''NodeStatusUnknown'') [ex_job ''Suspended'']) ''n1'' =
     (None,
      ex_world (ex_node [''fencing/enabled'' \<mapsto> ''true'', ''fencing/state'' \<mapsto> ''started'']
                   ''Unknown'' ''NodeStatusUnknown'') [ex_job ''Suspended'']) \<and>
   calls (snd (Reconcile ex_env
      (ex_world (ex_node [''fencing/enabled'' \<mapsto> ''true'', ''fencing/state'' \<mapsto> ''started'']
                   ''Unknown'' ''NodeStatusUnknown'') [ex_job ''Failed'']) ''n1'')) =
     [Delete ''fencing'' ''fence-n1'',
      Create (newJobForNode ''fencing''
                (ex_node [''fencing/enabled'' \<mapsto> ''true'', ''fencing/state'' \<mapsto> ''started'']
                   ''Unknown'' ''NodeStatusUnknown'') ex_template)]"
proof -
  let ?N = "ex_node [''fencing/enabled'' \<mapsto> ''true'', ''fencing/state'' \<mapsto> ''started'']
                   ''Unknown'' ''NodeStatusUnknown''"
  let ?job = "newJobForNode (pkg_Namespace ex_env) ?N ex_template"
  have h1: "fault ex_env Get_77 = None" "fault ex_env Get_255 = None"
           "fault ex_env Delete_278 = None" "fault ex_env Create_286 = None"
    by (simp_all add: ex_env_def)
  have h2: "Reason \<lparr>Type = ''Ready'', Status = ''Unknown'', Reason = ''NodeStatusUnknown''\<rparr> =
              ''NodeStatusUnknown''"
    by simp
  have h3: "index (Annotations ?N) ''fencing/state'' = ''started''"
           "index (Annotations ?N) ''fencing/enabled'' = ''true''"
    by (simp_all add: ex_node_def index_def)
  have h4: "podTemplateFor ex_env (ex_world ?N js) ?N = Some ex_template" for js
    by (rule ex_podTemplateFor) (simp_all add: ex_env_def)
  have nm: "Name ?job = ''fence-n1''" "Namespace ?job = ''fencing''"
    by (simp_all add: Name_newJobForNode Namespace_newJobForNode ex_template_def
          zeroPodTemplateSpec_def ex_node_def ex_env_def)
  have h5: "getJob (ex_world ?N [ex_job t]) (Namespace ?job) (Name ?job) = Some (ex_job t)" for t
    unfolding nm
    by (simp add: getJob_def ex_world_def named_def ex_job_def Name_newJobForNode
          Namespace_newJobForNode ex_template_def zeroPodTemplateSpec_def ex_node_def)
  have c1: "snd (GetJobCondition (Some (Job_Status (ex_job ''Suspended''))) JobComplete) = None"
           "snd (GetJobCondition (Some (Job_Status (ex_job ''Suspended''))) JobFailed) = None"
           "snd (GetJobCondition (Some (Job_Status (ex_job ''Failed''))) JobFailed) \<noteq> None"
    by (simp_all add: ex_job_def)
  have ns: "pkg_Namespace ex_env = ''fencing''"
    by (simp add: ex_env_def)
  have r1: "Reconcile ex_env (ex_world ?N [ex_job ''Suspended'']) ''n1'' =
              (None, ex_world ?N [ex_job ''Suspended''])"
    using Reconcile_started_job_found
            [OF h1(1) ex_getNode ex_ready h2 h3(1) h4 h3(2) refl h1(2) h5, of "''Suspended''"]
          c1(1) c1(2)
    by blast
  have r2: "calls (snd (Reconcile ex_env (ex_world ?N [ex_job ''Failed'']) ''n1'')) =
              calls (ex_world ?N [ex_job ''Failed'']) @
                [Delete (Namespace ?job) (Name ?job), Create ?job]"
    using Reconcile_started_job_found
            [OF h1(1) ex_getNode ex_ready h2 h3(1) h4 h3(2) refl h1(2) h5, of "''Failed''"]
          c1(3) h1(3)
    by blast
  show ?thesis
    using r1 r2 by (simp add: nm) (simp add: ns ex_world_def)
qed

section \<open>The arming phase\<close>

text \<open>
  Claim C6. A node with a positive timeout, in a pass that reaches the arming phase, where
  \<open>ts\<close> is a timestamp that is not negative and not after the clock reading of line 213:
  with no state and no timestamp the pass records \<open>ts\<close>, the clock reading of line 193,
  together with \<^verbatim>\<open>fencing/state=pending\<close> and creates no job; with state \<^verbatim>\<open>pending\<close> and the
  recorded timestamp \<open>ts\<close>, the pass changes neither nodes nor jobs while
  \<open>timeout - (now - ts) > 0\<close> (it only starts the timer), and patches \<^verbatim>\<open>fencing/state\<close> to
  \<^verbatim>\<open>started\<close>, removing the timestamp, once \<open>timeout - (now - ts) \<le> 0\<close>.
\<close>

theorem Reconcile_timeout_pending_then_started:
  assumes "fault env Get_77 = None"
      and "getNode w request = Some node"
      and "snd (GetNodeCondition (Some (Node_Status node)) NodeReady) = Some c"
      and "Reason c = ''NodeStatusUnknown''"
      and "Status c \<noteq> ConditionTrue"
      and "podTemplateFor env w node = Some podTemplate"
      and "index (Annotations node) ''fencing/enabled'' = ''true''"
      and "Atoi (timeoutStrFor node podTemplate) = (timeout, None)"
      and "0 < sint timeout"
      and "0 \<le> sint ts" and "sint ts \<le> sint (now_213 env)"
      and "remainTime = timeout - (now_213 env - ts)"
  shows "(Annotations node ''fencing/state'' = None \<and>
          Annotations node ''fencing/timestamp'' = None \<and>
          fault env Patch_205 = None \<and> ts = now_193 env \<and>
          0 < sint timeout - (sint (now_213 env) - sint ts)
            \<longrightarrow> Reconcile env w request =
                  (None, w\<lparr>calls := calls w @
                              [Patch request [(''fencing/state'', Some ''pending''),
                                              (''fencing/timestamp'', Some (FormatInt ts))],
                               Go_Sleep_Patch remainTime request [(''fencing/timestamp'', None)]],
                            nodes := map (patchNode request
                                             [(''fencing/state'', Some ''pending''),
                                              (''fencing/timestamp'', Some (FormatInt ts))])
                                       (nodes w)\<rparr>)) \<and>
         (Annotations node ''fencing/state'' = Some ''pending'' \<and>
          Annotations node ''fencing/timestamp'' = Some (FormatInt ts) \<and>
          0 < sint timeout - (sint (now_213 env) - sint ts)
            \<longrightarrow> Reconcile env w request =
                  (None, w\<lparr>calls := calls w @
                              [Go_Sleep_Patch remainTime request [(''fencing/timestamp'', None)]]\<rparr>)) \<and>
         (Annotations node ''fencing/state'' = Some ''pending'' \<and>
          Annotations node ''fencing/timestamp'' = Some (FormatInt ts) \<and>
          sint timeout - (sint (now_213 env) - sint ts) \<le> 0 \<and>
          fault env Patch_241 = None
            \<longrightarrow> Reconcile env w request =
                  (None, w\<lparr>calls := calls w @
                              [Patch request [(''fencing/state'', Some ''started''),
                                              (''fencing/timestamp'', None)]],
                            nodes := map (patchNode request
                                             [(''fencing/state'', Some ''started''),
                                              (''fencing/timestamp'', None)])
                                       (nodes w)\<rparr>))"
proof -
  have n: "Name node = request"
    using assms(2) by (rule getNode_Name)
  have t: "0 <s timeout"
    using assms(9) by (simp add: word_sless_alt)
  have pos: "0 <s remainTime \<longleftrightarrow> 0 < sint timeout - (sint (now_213 env) - sint ts)"
    unfolding assms(12) by (rule remainTime_positive [OF assms(10,11,9)])
  have R: "index (Annotations node) ''fencing/state'' \<notin> {''fenced'', ''recovered'', ''started''}
           \<Longrightarrow> Reconcile env w request =
                 armingPhase env w node (index (Annotations node) ''fencing/state'') podTemplate"
    using Reconcile_candidate [OF assms(1-4) _ _ assms(6)] assms(5,7)
    by (simp add: withTemplate_def)
  have first: "Reconcile env w request =
                  (None, w\<lparr>calls := calls w @
                              [Patch request [(''fencing/state'', Some ''pending''),
                                              (''fencing/timestamp'', Some (FormatInt ts))],
                               Go_Sleep_Patch remainTime request [(''fencing/timestamp'', None)]],
                            nodes := map (patchNode request
                                             [(''fencing/state'', Some ''pending''),
                                              (''fencing/timestamp'', Some (FormatInt ts))])
                                       (nodes w)\<rparr>)"
    if a: "Annotations node ''fencing/state'' = None"
          "Annotations node ''fencing/timestamp'' = None"
          "fault env Patch_205 = None" "ts = now_193 env"
          "0 < sint timeout - (sint (now_213 env) - sint ts)"
  proof -
    have s: "index (Annotations node) ''fencing/state'' = []"
      using a(1) by (simp add: index_def)
    have r: "0 <s timeout - (now_213 env - now_193 env)"
      using pos a(4,5) by (simp add: assms(12))
    show ?thesis
      using R armingPhase_first [OF assms(8) t a(2) a(3) _ r refl, of w] assms(2) n
      by (simp add: s a(4) assms(12))
  qed
  have later: "Reconcile env w request =
                 checkRemainTime env w node timeout ts"
    if a: "Annotations node ''fencing/state'' = Some ''pending''"
          "Annotations node ''fencing/timestamp'' = Some (FormatInt ts)"
  proof -
    have s: "index (Annotations node) ''fencing/state'' = ''pending''"
      using a(1) by (simp add: index_def)
    have p: "fst (ParseInt (index (Annotations node) ''fencing/timestamp'')) = ts"
      using a(2) by (simp add: index_def ParseInt_FormatInt)
    show ?thesis
      using R armingPhase_later [OF assms(8) t, of "''pending''" env w]
      by (simp add: s p)
  qed
  have wait: "checkRemainTime env w node timeout ts =
                (None, w\<lparr>calls := calls w @
                              [Go_Sleep_Patch remainTime request [(''fencing/timestamp'', None)]]\<rparr>)"
    if "0 < sint timeout - (sint (now_213 env) - sint ts)"
    using that pos by (simp add: checkRemainTime_def Let_def assms(12) n)
  have go: "checkRemainTime env w node timeout ts =
                  (None, w\<lparr>calls := calls w @
                              [Patch request [(''fencing/state'', Some ''started''),
                                              (''fencing/timestamp'', None)]],
                            nodes := map (patchNode request
                                             [(''fencing/state'', Some ''started''),
                                              (''fencing/timestamp'', None)])
                                       (nodes w)\<rparr>)"
    if a: "sint timeout - (sint (now_213 env) - sint ts) \<le> 0" "fault env Patch_241 = None"
  proof -
    have "\<not> 0 <s remainTime"
      using pos a(1) by simp
    then show ?thesis
      using patchStarted_ok [OF a(2), of w node] assms(2) n
      by (simp add: checkRemainTime_def Let_def assms(12))
  qed
  show ?thesis
    apply (intro conjI impI)
    subgoal by (elim conjE) (rule first; assumption)
    subgoal by (elim conjE) (simp add: later wait)
    subgoal by (elim conjE) (simp add: later go)
    done
qed

theorem Reconcile_timeout_pending_then_started_witness:
  "calls (snd (Reconcile ex_env
      (ex_world (ex_node [''fencing/enabled'' \<mapsto> ''true'', ''fencing/timeout'' \<mapsto> ''60'']
                   ''Unknown'' ''NodeStatusUnknown'') []) ''n1'')) =
     [Patch ''n1'' [(''fencing/state'', Some ''pending''), (''fencing/timestamp'', Some ''1000'')],
      Go_Sleep_Patch 60 ''n1'' [(''fencing/timestamp'', None)]] \<and>
   calls (snd (Reconcile (ex_env\<lparr>now_213 := 1030\<rparr>)
      (ex_world (ex_node [''fencing/enabled'' \<mapsto> ''true'', ''fencing/timeout'' \<mapsto> ''60'',
                          ''fencing/state'' \<mapsto> ''pending'', ''fencing/timestamp'' \<mapsto> ''1000'']
                   ''Unknown'' ''NodeStatusUnknown'') []) ''n1'')) =
     [Go_Sleep_Patch 30 ''n1'' [(''fencing/timestamp'', None)]] \<and>
   calls (snd (Reconcile (ex_env\<lparr>now_213 := 1060\<rparr>)
      (ex_world (ex_node [''fencing/enabled'' \<mapsto> ''true'', ''fencing/timeout'' \<mapsto> ''60'',
                          ''fencing/state'' \<mapsto> ''pending'', ''fencing/timestamp'' \<mapsto> ''1000'']
                   ''Unknown'' ''NodeStatusUnknown'') []) ''n1'')) =
     [Patch ''n1'' [(''fencing/state'', Some ''started''), (''fencing/timestamp'', None)]]"
proof -
  let ?N0 = "ex_node [''fencing/enabled'' \<mapsto> ''true'', ''fencing/timeout'' \<mapsto> ''60'']
                   ''Unknown'' ''NodeStatusUnknown''"
  let ?N1 = "ex_node [''fencing/enabled'' \<mapsto> ''true'', ''fencing/timeout'' \<mapsto> ''60'',
                      ''fencing/state'' \<mapsto> ''pending'', ''fencing/timestamp'' \<mapsto> ''1000'']
                   ''Unknown'' ''NodeStatusUnknown''"
  let ?c = "\<lparr>Type = ''Ready'', Status = ''Unknown'', Reason = ''NodeStatusUnknown''\<rparr>"
  have f: "fault (ex_env\<lparr>now_213 := t\<rparr>) s = None" "fault ex_env s = None" for t s
    by (simp_all add: ex_env_def)
  have c: "Reason ?c = ''NodeStatusUnknown''" "Status ?c \<noteq> ConditionTrue"
    by simp_all
  have t0: "podTemplateFor ex_env (ex_world ?N0 []) ?N0 = Some ex_template"
    by (rule ex_podTemplateFor) (simp_all add: ex_env_def)
  have t1: "podTemplateFor (ex_env\<lparr>now_213 := t\<rparr>) (ex_world ?N1 []) ?N1 = Some ex_template" for t
    by (rule ex_podTemplateFor) (simp_all add: ex_env_def)
  have e: "index (Annotations ?N0) ''fencing/enabled'' = ''true''"
          "index (Annotations ?N1) ''fencing/enabled'' = ''true''"
    by (simp_all add: ex_node_def index_def)
  have a: "Atoi (timeoutStrFor ?N0 ex_template) = (60, None)"
          "Atoi (timeoutStrFor ?N1 ex_template) = (60, None)"
    by (simp_all add: timeoutStrFor_def ex_node_def Atoi_60)
  have s: "0 < sint (60 :: int64)" "0 \<le> sint (1000 :: int64)"
          "sint (1000 :: int64) \<le> sint (now_213 ex_env)"
          "sint (1000 :: int64) \<le> sint (now_213 (ex_env\<lparr>now_213 := 1030\<rparr>))"
          "sint (1000 :: int64) \<le> sint (now_213 (ex_env\<lparr>now_213 := 1060\<rparr>))"
    by (simp_all add: ex_env_def)
  have n0: "Annotations ?N0 ''fencing/state'' = None"
           "Annotations ?N0 ''fencing/timestamp'' = None"
           "1000 = now_193 ex_env"
           "0 < sint (60 :: int64) - (sint (now_213 ex_env) - sint (1000 :: int64))"
    by (simp_all add: ex_node_def ex_env_def)
  have n1: "Annotations ?N1 ''fencing/state'' = Some ''pending''"
           "Annotations ?N1 ''fencing/timestamp'' = Some (FormatInt 1000)"
           "0 < sint (60 :: int64) - (sint (now_213 (ex_env\<lparr>now_213 := 1030\<rparr>)) - sint (1000 :: int64))"
           "sint (60 :: int64) - (sint (now_213 (ex_env\<lparr>now_213 := 1060\<rparr>)) - sint (1000 :: int64)) \<le> 0"
    by (simp_all add: ex_node_def FormatInt_1000)
  have r1: "Reconcile ex_env (ex_world ?N0 []) ''n1'' =
              (None, (ex_world ?N0 [])\<lparr>calls := calls (ex_world ?N0 []) @
                 [Patch ''n1'' [(''fencing/state'', Some ''pending''),
                               (''fencing/timestamp'', Some (FormatInt 1000))],
                  Go_Sleep_Patch (60 - (now_213 ex_env - 1000)) ''n1''
                    [(''fencing/timestamp'', None)]],
                nodes := map (patchNode ''n1''
                   [(''fencing/state'', Some ''pending''),
                    (''fencing/timestamp'', Some (FormatInt 1000))]) (nodes (ex_world ?N0 []))\<rparr>)"
    using Reconcile_timeout_pending_then_started
            [OF f(2) ex_getNode ex_ready c t0 e(1) a(1) s(1) s(2) s(3) refl] n0 f(2)
    by blast
  have r2: "Reconcile (ex_env\<lparr>now_213 := 1030\<rparr>) (ex_world ?N1 []) ''n1'' =
              (None, (ex_world ?N1 [])\<lparr>calls := calls (ex_world ?N1 []) @
                 [Go_Sleep_Patch (60 - (now_213 (ex_env\<lparr>now_213 := 1030\<rparr>) - 1000)) ''n1''
                    [(''fencing/timestamp'', None)]]\<rparr>)"
    using Reconcile_timeout_pending_then_started
            [OF f(1) ex_getNode ex_ready c t1 e(2) a(2) s(1) s(2) s(4) refl] n1(1,2,3)
    by blast
  have r3: "Reconcile (ex_env\<lparr>now_213 := 1060\<rparr>) (ex_world ?N1 []) ''n1'' =
              (None, (ex_world ?N1 [])\<lparr>calls := calls (ex_world ?N1 []) @
                 [Patch ''n1'' [(''fencing/state'', Some ''started''),
                               (''fencing/timestamp'', None)]],
                nodes := map (patchNode ''n1''
                   [(''fencing/state'', Some ''started''),
                    (''fencing/timestamp'', None)]) (nodes (ex_world ?N1 []))\<rparr>)"
    using Reconcile_timeout_pending_then_started
            [OF f(1) ex_getNode ex_ready c t1 e(2) a(2) s(1) s(2) s(5) refl] n1(1,2,4) f(1)
    by blast
  show ?thesis
    unfolding r1 r2 r3 by (simp add: ex_world_def ex_env_def FormatInt_1000)
qed

text \<open>
  Claim C9. In a pass that reaches the arming phase, a timeout string (of the node, else of
  the template) that \<^verbatim>\<open>Atoi\<close> rejects ends the pass with no error and with the world as it
  was: no annotation changed, no job created.
\<close>

theorem Reconcile_unparsable_timeout:
  assumes "fault env Get_77 = None"
      and "getNode w request = Some node"
      and "snd (GetNodeCondition (Some (Node_Status node)) NodeReady) = Some c"
      and "Reason c = ''NodeStatusUnknown''"
      and "\<not> (Status c = ConditionTrue \<and> index (Annotations node) ''fencing/state'' = ''pending'')"
      and "index (Annotations node) ''fencing/state'' \<notin> {''fenced'', ''recovered'', ''started''}"
      and "podTemplateFor env w node = Some podTemplate"
      and "index (Annotations node) ''fencing/enabled'' = ''true''"
      and "snd (Atoi (timeoutStrFor node podTemplate)) = Some err"
  shows "Reconcile env w request = (None, w)"
proof -
  have "Reconcile env w request =
          withTemplate env w node (index (Annotations node) ''fencing/state'') podTemplate"
    using assms(1-7) by (intro Reconcile_candidate) simp_all
  also have "\<dots> = armingPhase env w node (index (Annotations node) ''fencing/state'') podTemplate"
    using assms(6,8) by (simp add: withTemplate_def)
  also have "\<dots> = (None, w)"
    using assms(9)
    by (cases "Atoi (timeoutStrFor node podTemplate)") (simp add: armingPhase_def Let_def)
  finally show ?thesis .
qed

theorem Reconcile_unparsable_timeout_witness:
  "Reconcile ex_env
      (ex_world (ex_node [''fencing/enabled'' \<mapsto> ''true'', ''fencing/timeout'' \<mapsto> ''1m'']
                   ''Unknown'' ''NodeStatusUnknown'') []) ''n1'' =
     (None,
      ex_world (ex_node [''fencing/enabled'' \<mapsto> ''true'', ''fencing/timeout'' \<mapsto> ''1m'']
                   ''Unknown'' ''NodeStatusUnknown'') [])"
proof -
  let ?N = "ex_node [''fencing/enabled'' \<mapsto> ''true'', ''fencing/timeout'' \<mapsto> ''1m'']
                   ''Unknown'' ''NodeStatusUnknown''"
  have h1: "fault ex_env Get_77 = None"
    by (simp add: ex_env_def)
  have h2: "Reason \<lparr>Type = ''Ready'', Status = ''Unknown'', Reason = ''NodeStatusUnknown''\<rparr> =
              ''NodeStatusUnknown''"
    by simp
  have h3: "\<not> (Status \<lparr>Type = ''Ready'', Status = ''Unknown'', Reason = ''NodeStatusUnknown''\<rparr> =
                 ConditionTrue \<and> index (Annotations ?N) ''fencing/state'' = ''pending'')"
    by simp
  have h4: "index (Annotations ?N) ''fencing/state'' \<notin> {''fenced'', ''recovered'', ''started''}"
    by (simp add: ex_node_def index_def)
  have h5: "podTemplateFor ex_env (ex_world ?N []) ?N = Some ex_template"
    by (rule ex_podTemplateFor) (simp_all add: ex_env_def)
  have h6: "index (Annotations ?N) ''fencing/enabled'' = ''true''"
    by (simp add: ex_node_def index_def)
  have h7: "snd (Atoi (timeoutStrFor ?N ex_template)) = Some ErrSyntax"
    by (simp add: timeoutStrFor_def ex_node_def Atoi_1m)
  show ?thesis
    by (rule Reconcile_unparsable_timeout [OF h1 ex_getNode ex_ready h2 h3 h4 h5 h6 h7])
qed

section \<open>Template errors\<close>

text \<open>
  Claim C10. When the fetch of the pod template fails, the pass stops only for a not-found
  error. For any other error it goes on with the zero-valued template and the error is not
  returned: the built job is named \<^verbatim>\<open>fence-\<close> + node name and its annotations for the three
  fixed keys are the node's, else the defaults.
\<close>

theorem Reconcile_template_error_goes_on:
  assumes "fault env Get_77 = None"
      and "getNode w request = Some node0"
      and "snd (GetNodeCondition (Some (Node_Status node0)) NodeReady) = Some c"
      and "recoveredCheck env w node0 (index (Annotations node0) ''fencing/state'') c =
             (fencingState, node, w1)"
      and "fencingState \<noteq> ''fenced''"
      and "fencingState = ''recovered'' \<or> Reason c = ''NodeStatusUnknown''"
      and "fault env Get_136 = Some err"
  shows "Reconcile env w request =
           (if IsNotFound err then (None, w1)
            else withTemplate env w1 node fencingState zeroPodTemplate) \<and>
         Name (newJobForNode (pkg_Namespace env) node zeroPodTemplate) = ''fence-'' @ Name node \<and>
         (\<forall>k \<in> set defaultKeys.
            Annotations (newJobForNode (pkg_Namespace env) node zeroPodTemplate) k =
              (case Annotations node k of Some v \<Rightarrow> Some v | None \<Rightarrow> defaultAnnotations k))"
proof (intro conjI ballI)
  have "podTemplateFor env w1 node = (if IsNotFound err then None else Some zeroPodTemplate)"
    using assms(7) by (simp add: podTemplateFor_def client_Get_def)
  then show "Reconcile env w request =
           (if IsNotFound err then (None, w1)
            else withTemplate env w1 node fencingState zeroPodTemplate)"
    using assms(1-6) by (auto simp: Reconcile_def client_Get_def)
  show "Name (newJobForNode (pkg_Namespace env) node zeroPodTemplate) = ''fence-'' @ Name node"
    by (simp add: Name_newJobForNode zeroPodTemplate_def zeroPodTemplateSpec_def)
  fix k assume "k \<in> set defaultKeys"
  then show "Annotations (newJobForNode (pkg_Namespace env) node zeroPodTemplate) k =
              (case Annotations node k of Some v \<Rightarrow> Some v | None \<Rightarrow> defaultAnnotations k)"
    by (simp add: Annotations_newJobForNode jobAnnotations_default_key fold_overrideDefault
          zeroPodTemplate_def zeroPodTemplateSpec_def split: option.splits)
qed

theorem Reconcile_template_error_goes_on_witness:
  "calls (snd (Reconcile (ex_env\<lparr>fault := (\<lambda>s. None)(Get_136 \<mapsto> OtherError ''timeout'')\<rparr>)
      (ex_world (ex_node [''fencing/enabled'' \<mapsto> ''true'', ''fencing/state'' \<mapsto> ''started'']
                   ''Unknown'' ''NodeStatusUnknown'') []) ''n1'')) =
     [Create (newJobForNode ''fencing''
                (ex_node [''fencing/enabled'' \<mapsto> ''true'', ''fencing/state'' \<mapsto> ''started'']
                   ''Unknown'' ''NodeStatusUnknown'') zeroPodTemplate)] \<and>
   Name (newJobForNode ''fencing''
                (ex_node [''fencing/enabled'' \<mapsto> ''true'', ''fencing/state'' \<mapsto> ''started'']
                   ''Unknown'' ''NodeStatusUnknown'') zeroPodTemplate) = ''fence-n1''"
proof -
  let ?N = "ex_node [''fencing/enabled'' \<mapsto> ''true'', ''fencing/state'' \<mapsto> ''started'']
                   ''Unknown'' ''NodeStatusUnknown''"
  let ?W = "ex_world ?N []"
  let ?env = "ex_env\<lparr>fault := (\<lambda>s. None)(Get_136 \<mapsto> OtherError ''timeout'')\<rparr>"
  have h1: "fault ?env Get_77 = None" "fault ?env Get_136 = Some (OtherError ''timeout'')"
    by simp_all
  have h2: "recoveredCheck ?env ?W ?N (index (Annotations ?N) ''fencing/state'')
              \<lparr>Type = ''Ready'', Status = ''Unknown'', Reason = ''NodeStatusUnknown''\<rparr> =
              (''started'', ?N, ?W)"
    by (simp add: recoveredCheck_def ex_node_def index_def)
  have h3: "''started'' \<noteq> ''fenced''"
    by simp
  have h4: "''started'' = ''recovered'' \<or>
            Reason \<lparr>Type = ''Ready'', Status = ''Unknown'', Reason = ''NodeStatusUnknown''\<rparr> =
              ''NodeStatusUnknown''"
    by simp
  have e: "withTemplate ?env ?W ?N ''started'' zeroPodTemplate =
             (None, ?W\<lparr>calls := [Create (newJobForNode ''fencing'' ?N zeroPodTemplate)],
                        jobs := [newJobForNode ''fencing'' ?N zeroPodTemplate]\<rparr>)"
    by (simp add: withTemplate_def index_def executionPhase_def client_Get_def getJob_def
          client_Create_def Let_def IsNotFound_def ex_node_def ex_env_def ex_world_def)
  show ?thesis
    using Reconcile_template_error_goes_on [OF h1(1) ex_getNode ex_ready h2 h3 h4 h1(2)]
    by (simp add: IsNotFound_def e) (simp add: ex_env_def ex_node_def)
qed

end
